theory Spec2Isabelle
  imports Complex_Main
begin

section \<open>JavaScript numbers\<close>

text \<open>
  The three rendering surfaces (the \<^verbatim>\<open>DailyDots\<close> component and the two \<^verbatim>\<open>GET\<close> image
  routes) compute with JavaScript numbers. Geometry is modelled in exact rational
  arithmetic, extended by the three special values a JavaScript number can take.
  Signed zero is not distinguished: a division by zero takes the sign of the dividend,
  as a division by \<^verbatim>\<open>+0\<close> does.
\<close>

datatype jsnum = Num rat | PInf | NInf | NaN

fun sign_of :: "jsnum \<Rightarrow> rat" where
  "sign_of (Num a) = sgn a"
| "sign_of PInf = 1"
| "sign_of NInf = - 1"
| "sign_of NaN = 0"

definition signed_inf :: "rat \<Rightarrow> jsnum" where
  "signed_inf s = (if s = 0 then NaN else if 0 < s then PInf else NInf)"

fun js_neg :: "jsnum \<Rightarrow> jsnum" where
  "js_neg (Num a) = Num (- a)"
| "js_neg PInf = NInf"
| "js_neg NInf = PInf"
| "js_neg NaN = NaN"

fun js_add :: "jsnum \<Rightarrow> jsnum \<Rightarrow> jsnum" where
  "js_add (Num a) (Num b) = Num (a + b)"
| "js_add NaN y = NaN"
| "js_add x NaN = NaN"
| "js_add PInf NInf = NaN"
| "js_add NInf PInf = NaN"
| "js_add PInf y = PInf"
| "js_add NInf y = NInf"
| "js_add x PInf = PInf"
| "js_add x NInf = NInf"

definition js_sub :: "jsnum \<Rightarrow> jsnum \<Rightarrow> jsnum" where
  "js_sub x y = js_add x (js_neg y)"

fun js_mul :: "jsnum \<Rightarrow> jsnum \<Rightarrow> jsnum" where
  "js_mul (Num a) (Num b) = Num (a * b)"
| "js_mul NaN y = NaN"
| "js_mul x NaN = NaN"
| "js_mul x y = signed_inf (sign_of x * sign_of y)"

fun js_div :: "jsnum \<Rightarrow> jsnum \<Rightarrow> jsnum" where
  "js_div (Num a) (Num b) = (if b = 0 then signed_inf (sgn a) else Num (a / b))"
| "js_div NaN y = NaN"
| "js_div x NaN = NaN"
| "js_div (Num a) y = Num 0"
| "js_div x (Num b) = signed_inf (sign_of x * (if 0 \<le> b then 1 else - 1))"
| "js_div x y = NaN"

text \<open>\<^verbatim>\<open>Math.min\<close> of two numbers: \<^verbatim>\<open>NaN\<close> when either argument is \<^verbatim>\<open>NaN\<close>.\<close>

fun js_min :: "jsnum \<Rightarrow> jsnum \<Rightarrow> jsnum" where
  "js_min (Num a) (Num b) = Num (min a b)"
| "js_min NaN y = NaN"
| "js_min x NaN = NaN"
| "js_min NInf y = NInf"
| "js_min x NInf = NInf"
| "js_min PInf y = y"
| "js_min x PInf = x"

subsection \<open>Integer-valued numbers\<close>

text \<open>
  Day counts, weekday indices, rows and columns are integers or \<^verbatim>\<open>NaN\<close> (when the
  reference date is an \<^verbatim>\<open>Invalid Date\<close>); \<open>None\<close> stands for \<^verbatim>\<open>NaN\<close>. Every comparison
  with \<^verbatim>\<open>NaN\<close>, also \<^verbatim>\<open>===\<close>, is false.
\<close>

type_synonym jsint = "int option"

definition to_num :: "jsint \<Rightarrow> jsnum" where
  "to_num n = (case n of None \<Rightarrow> NaN | Some i \<Rightarrow> Num (of_int i))"

definition jsi_add :: "jsint \<Rightarrow> jsint \<Rightarrow> jsint" where
  "jsi_add a b = (case a of None \<Rightarrow> None | Some x \<Rightarrow> (case b of None \<Rightarrow> None | Some y \<Rightarrow> Some (x + y)))"

definition jsi_sub :: "jsint \<Rightarrow> jsint \<Rightarrow> jsint" where
  "jsi_sub a b = (case a of None \<Rightarrow> None | Some x \<Rightarrow> (case b of None \<Rightarrow> None | Some y \<Rightarrow> Some (x - y)))"

definition jsi_lt :: "jsint \<Rightarrow> jsint \<Rightarrow> bool" where
  "jsi_lt a b = (case a of None \<Rightarrow> False | Some x \<Rightarrow> (case b of None \<Rightarrow> False | Some y \<Rightarrow> x < y))"

definition jsi_ge :: "jsint \<Rightarrow> jsint \<Rightarrow> bool" where
  "jsi_ge a b = (case a of None \<Rightarrow> False | Some x \<Rightarrow> (case b of None \<Rightarrow> False | Some y \<Rightarrow> y \<le> x))"

definition jsi_eq :: "jsint \<Rightarrow> jsint \<Rightarrow> bool" where
  "jsi_eq a b = (case a of None \<Rightarrow> False | Some x \<Rightarrow> (case b of None \<Rightarrow> False | Some y \<Rightarrow> x = y))"

text \<open>\<^verbatim>\<open>Math.floor(a / 14)\<close> and \<^verbatim>\<open>Math.ceil(a / 14)\<close> for an integer-valued \<^verbatim>\<open>a\<close>.\<close>

definition floor_div14 :: "jsint \<Rightarrow> jsint" where
  "floor_div14 a = (case a of None \<Rightarrow> None | Some x \<Rightarrow> Some \<lfloor>(of_int x :: rat) / 14\<rfloor>)"

definition ceil_div14 :: "jsint \<Rightarrow> jsint" where
  "ceil_div14 a = (case a of None \<Rightarrow> None | Some x \<Rightarrow> Some \<lceil>(of_int x :: rat) / 14\<rceil>)"

text \<open>\<^verbatim>\<open>a % 14\<close>: the remainder takes the sign of the dividend.\<close>

definition rem14 :: "jsint \<Rightarrow> jsint" where
  "rem14 a = (case a of None \<Rightarrow> None
     | Some x \<Rightarrow> Some (if 0 \<le> x then x mod 14 else - ((- x) mod 14)))"

section \<open>Dates\<close>

text \<open>
  A JavaScript \<^verbatim>\<open>Date\<close> is either an \<^verbatim>\<open>Invalid Date\<close> or an instant between 100 000 000
  days before and after 1 January 1970. The functions of the date library used here
  (\<^verbatim>\<open>startOfYear\<close>, \<^verbatim>\<open>endOfYear\<close>, \<^verbatim>\<open>differenceInDays\<close>, \<^verbatim>\<open>getDay\<close>) read and write it through its
  local calendar fields. The library and the runtime are external; they are modelled
  from their documented behaviour. The program uses the month and the day of the month
  only to order dates and to count the days between them, so the two are kept as
  one field, the day of the year counted from 0 for 1 January.
\<close>

record local_date =
  fullYear :: int
  dayOfYear :: int
  hours :: int
  minutes :: int
  seconds :: int
  milliseconds :: int

datatype jsdate = Invalid_Date | Date local_date

text \<open>
  The day number of 1 January of year \<open>y\<close>, counted from 1 January 1970, as the
  language standard defines it, and the days of a year as the distance to the next
  1 January.
\<close>

definition DayFromYear :: "int \<Rightarrow> int" where
  "DayFromYear y =
     365 * (y - 1970) + (y - 1969) div 4 - (y - 1901) div 100 + (y - 1601) div 400"

definition daysInYear :: "int \<Rightarrow> int" where
  "daysInYear y = DayFromYear (y + 1) - DayFromYear y"

definition dayNumber :: "local_date \<Rightarrow> int" where
  "dayNumber d = DayFromYear (fullYear d) + dayOfYear d"

definition msOfDay :: "local_date \<Rightarrow> int" where
  "msOfDay d = ((hours d * 60 + minutes d) * 60 + seconds d) * 1000 + milliseconds d"

definition timeValue :: "local_date \<Rightarrow> int" where
  "timeValue d = dayNumber d * 86400000 + msOfDay d"

text \<open>
  The range of time values a \<^verbatim>\<open>Date\<close> can hold. The offset of a time zone moves the
  limits by less than a day; the local times tested below lie months away from them.
\<close>

definition inRange :: "local_date \<Rightarrow> bool" where
  "inRange d \<longleftrightarrow> - 8640000000000000 \<le> timeValue d \<and> timeValue d \<le> 8640000000000000"

definition valid_date :: "local_date \<Rightarrow> bool" where
  "valid_date d \<longleftrightarrow>
     0 \<le> dayOfYear d \<and> dayOfYear d < daysInYear (fullYear d) \<and>
     0 \<le> hours d \<and> hours d \<le> 23 \<and>
     0 \<le> minutes d \<and> minutes d \<le> 59 \<and>
     0 \<le> seconds d \<and> seconds d \<le> 59 \<and>
     0 \<le> milliseconds d \<and> milliseconds d \<le> 999 \<and>
     inRange d"

text \<open>
  The time zone of the runtime is a parameter: it tells which local time a \<^verbatim>\<open>Date\<close>
  takes when a setter asks for given local fields. A local time that exists in the
  zone is taken as it is; one that the zone skips (a change of offset, a day dropped at
  the date line) is moved to a later one. In \<open>utc\<close> every local time exists.
\<close>

type_synonym zone = "local_date \<Rightarrow> local_date"

definition utc :: zone where
  "utc l = l"

text \<open>A setter: the date is invalid when the fields asked for are out of range.\<close>

definition setLocal :: "zone \<Rightarrow> local_date \<Rightarrow> jsdate" where
  "setLocal z l = (if inRange l then Date (z l) else Invalid_Date)"

text \<open>
  \<^verbatim>\<open>startOfYear\<close> sets the date to 1 January of its year (\<^verbatim>\<open>setFullYear(year, 0, 1)\<close>), then the
  time to midnight (\<^verbatim>\<open>setHours(0, 0, 0, 0)\<close>).
\<close>

definition startOfYear :: "zone \<Rightarrow> jsdate \<Rightarrow> jsdate" where
  "startOfYear z now = (case now of Invalid_Date \<Rightarrow> Invalid_Date
     | Date d \<Rightarrow>
         (case setLocal z (d\<lparr>dayOfYear := 0\<rparr>) of Invalid_Date \<Rightarrow> Invalid_Date
          | Date d1 \<Rightarrow>
              setLocal z (d1\<lparr>hours := 0, minutes := 0, seconds := 0, milliseconds := 0\<rparr>)))"

text \<open>
  \<^verbatim>\<open>endOfYear\<close> sets the date to day 0 of January of the next year
  (\<^verbatim>\<open>setFullYear(year + 1, 0, 0)\<close>), which is the day before that 1 January, then the time
  to the last millisecond of the day (\<^verbatim>\<open>setHours(23, 59, 59, 999)\<close>).
\<close>

definition lastDayOfYear :: "int \<Rightarrow> int" where
  "lastDayOfYear y = DayFromYear (y + 1) - 1 - DayFromYear y"

definition endOfYear :: "zone \<Rightarrow> jsdate \<Rightarrow> jsdate" where
  "endOfYear z now = (case now of Invalid_Date \<Rightarrow> Invalid_Date
     | Date d \<Rightarrow>
         (case setLocal z (d\<lparr>dayOfYear := lastDayOfYear (fullYear d)\<rparr>) of
            Invalid_Date \<Rightarrow> Invalid_Date
          | Date d1 \<Rightarrow>
              setLocal z (d1\<lparr>hours := 23, minutes := 59, seconds := 59, milliseconds := 999\<rparr>)))"

text \<open>
  \<^verbatim>\<open>getDay\<close>: the day of the week, 0 for Sunday to 6 for Saturday; 1 January 1970 was a
  Thursday.
\<close>

definition getDay :: "jsdate \<Rightarrow> jsint" where
  "getDay t = (case t of Invalid_Date \<Rightarrow> None | Date d \<Rightarrow> Some ((dayNumber d + 4) mod 7))"

text \<open>
  The library compares two dates field by field, from the year down to the
  millisecond, and returns the sign of the first difference.
\<close>

definition sign_int :: "int \<Rightarrow> int" where
  "sign_int diff = (if diff < 0 then - 1 else if 0 < diff then 1 else diff)"

definition compareTimeOfDay :: "local_date \<Rightarrow> local_date \<Rightarrow> int" where
  "compareTimeOfDay l e = sign_int
     (if hours l - hours e \<noteq> 0 then hours l - hours e
      else if minutes l - minutes e \<noteq> 0 then minutes l - minutes e
      else if seconds l - seconds e \<noteq> 0 then seconds l - seconds e
      else milliseconds l - milliseconds e)"

definition compareLocalAsc :: "local_date \<Rightarrow> local_date \<Rightarrow> int" where
  "compareLocalAsc l e = sign_int
     (if fullYear l - fullYear e \<noteq> 0 then fullYear l - fullYear e
      else if dayOfYear l - dayOfYear e \<noteq> 0 then dayOfYear l - dayOfYear e
      else if hours l - hours e \<noteq> 0 then hours l - hours e
      else if minutes l - minutes e \<noteq> 0 then minutes l - minutes e
      else if seconds l - seconds e \<noteq> 0 then seconds l - seconds e
      else milliseconds l - milliseconds e)"

definition differenceInCalendarDays :: "local_date \<Rightarrow> local_date \<Rightarrow> int" where
  "differenceInCalendarDays l e = dayNumber l - dayNumber e"

text \<open>
  \<^verbatim>\<open>differenceInDays(later, earlier)\<close>: the number of full days between two dates,
  truncated towards zero. The library takes the difference in calendar days, moves
  \<open>later\<close> back by that many days (which puts it on the calendar day of \<open>earlier\<close>
  and keeps its time of day) and takes one day off when the last day is not full.
  On an \<^verbatim>\<open>Invalid Date\<close> the result is \<^verbatim>\<open>NaN\<close>.
\<close>

definition differenceInDays :: "jsdate \<Rightarrow> jsdate \<Rightarrow> jsint" where
  "differenceInDays later earlier =
     (case later of Invalid_Date \<Rightarrow> None
      | Date l \<Rightarrow> (case earlier of Invalid_Date \<Rightarrow> None
      | Date e \<Rightarrow>
          (let sign = compareLocalAsc l e;
               difference = \<bar>differenceInCalendarDays l e\<bar>;
               isLastDayNotFull = (if compareTimeOfDay l e = - sign then 1 else 0)
           in Some (sign * (difference - isLastDayNotFull)))))"

section \<open>Temporal model\<close>

text \<open>
  The three surfaces start with the same four computations
  (\<^verbatim>\<open>startYear\<close>, \<^verbatim>\<open>endYear\<close>, \<^verbatim>\<open>totalDays\<close>, \<^verbatim>\<open>daysPassed\<close>) and the same weekday remap.
\<close>

definition totalDays :: "zone \<Rightarrow> jsdate \<Rightarrow> jsint" where
  "totalDays z now = jsi_add (differenceInDays (endOfYear z now) (startOfYear z now)) (Some 1)"

definition daysPassed :: "zone \<Rightarrow> jsdate \<Rightarrow> jsint" where
  "daysPassed z now = differenceInDays now (startOfYear z now)"

definition firstDayOfWeek :: "zone \<Rightarrow> jsdate \<Rightarrow> jsint" where
  "firstDayOfWeek z now =
     (let day = getDay (startOfYear z now)
      in if jsi_eq day (Some 0) then Some 6 else jsi_sub day (Some 1))"

definition totalRows :: "zone \<Rightarrow> jsdate \<Rightarrow> jsint" where
  "totalRows z now = ceil_div14 (jsi_add (totalDays z now) (firstDayOfWeek z now))"

section \<open>Geometry\<close>

text \<open>
  The sizes computed from the canvas and the number of rows. The component computes
  the card, the gap and the dot size and leaves the cells to a CSS grid; the two image
  routes compute the cell size as well. The text of the computation is the same in the
  three surfaces.
\<close>

record card_geometry =
  cardWidth :: jsnum
  cardHeight :: jsnum
  padding :: jsnum
  availableWidth :: jsnum
  availableHeight :: jsnum
  uniformGap :: jsnum
  dotSize :: jsnum

record grid_geometry = card_geometry +
  cellWidth :: jsnum
  cellHeight :: jsnum

definition cardGeometry :: "jsnum \<Rightarrow> jsnum \<Rightarrow> jsnum \<Rightarrow> card_geometry" where
  "cardGeometry width height rows =
     (let cardW = js_mul width (Num 0.75);
          cardH = js_mul height (Num 0.48);
          pad = js_mul (js_min cardW cardH) (Num 0.04);
          availableW = js_sub cardW (js_mul pad (Num 2));
          availableH = js_sub cardH (js_mul pad (Num 2));
          cols = Num 15;
          gap = js_min (js_div availableW (js_mul cols (Num 4)))
                       (js_div availableH (js_mul rows (Num 4)))
      in \<lparr>cardWidth = cardW, cardHeight = cardH, padding = pad,
          availableWidth = availableW, availableHeight = availableH,
          uniformGap = gap, dotSize = js_mul gap (Num 1.5)\<rparr>)"

definition gridGeometry :: "jsnum \<Rightarrow> jsnum \<Rightarrow> jsnum \<Rightarrow> grid_geometry" where
  "gridGeometry width height rows =
     (let g = cardGeometry width height rows
      in card_geometry.extend g
           \<lparr>cellWidth = js_div (availableWidth g) (Num 15),
            cellHeight = js_div (availableHeight g) rows\<rparr>)"

section \<open>Grid layout\<close>

text \<open>
  The row and the column of the slot at structural offset \<open>totalOffset\<close>: 14 slots per
  row, and the slots of the second week are moved one column right, past the gap column.
\<close>

definition rowOf :: "jsint \<Rightarrow> jsint" where
  "rowOf totalOffset = floor_div14 totalOffset"

definition colOf :: "jsint \<Rightarrow> jsint" where
  "colOf totalOffset =
     (let positionInRow = rem14 totalOffset
      in if jsi_lt positionInRow (Some 7) then positionInRow else jsi_add positionInRow (Some 1))"

section \<open>The dynamic image route\<close>

datatype dot_type = Empty | Cross | Today | Dot | Gap

record dot =
  type :: dot_type
  row :: jsint
  col :: jsint

text \<open>The loop over the empty slots before the first day of the year.\<close>

function emptySlots :: "nat \<Rightarrow> jsint \<Rightarrow> dot list \<Rightarrow> dot list" where
  "emptySlots i first dots =
     (if jsi_lt (Some (int i)) first
      then (let totalOffset = Some (int i)
            in emptySlots (Suc i) first
                 (dots @ [\<lparr>type = Empty, row = rowOf totalOffset, col = colOf totalOffset\<rparr>]))
      else dots)"
  by pat_completeness auto
termination
  by (relation "measure (\<lambda>(i, first, dots). case first of None \<Rightarrow> 0 | Some n \<Rightarrow> nat (n - int i))")
     (auto simp: jsi_lt_def split: option.splits)

text \<open>The dots one day pushes: a gap before the day at position 7 of its row, then the day.\<close>

definition dayDots :: "jsint \<Rightarrow> jsint \<Rightarrow> nat \<Rightarrow> dot list" where
  "dayDots first passed dayOffset =
     (let totalOffset = jsi_add first (Some (int dayOffset));
          r = rowOf totalOffset;
          positionInRow = rem14 totalOffset;
          c = colOf totalOffset;
          needsGapBefore = jsi_eq positionInRow (Some 7);
          isPassed = jsi_lt (Some (int dayOffset)) passed;
          isToday = jsi_eq (Some (int dayOffset)) passed
      in (if needsGapBefore then [\<lparr>type = Gap, row = r, col = Some 7\<rparr>] else []) @
         [\<lparr>type = (if isPassed then Cross else if isToday then Today else Dot),
           row = r, col = c\<rparr>])"

function allDays :: "nat \<Rightarrow> jsint \<Rightarrow> jsint \<Rightarrow> jsint \<Rightarrow> dot list \<Rightarrow> dot list" where
  "allDays dayOffset days first passed dots =
     (if jsi_lt (Some (int dayOffset)) days
      then allDays (Suc dayOffset) days first passed (dots @ dayDots first passed dayOffset)
      else dots)"
  by pat_completeness auto
termination
  by (relation "measure (\<lambda>(i, days, first, passed, dots).
        case days of None \<Rightarrow> 0 | Some n \<Rightarrow> nat (n - int i))")
     (auto simp: jsi_lt_def split: option.splits)

definition generateDots :: "jsint \<Rightarrow> jsint \<Rightarrow> jsint \<Rightarrow> dot list" where
  "generateDots days first passed =
     (let dots = emptySlots 0 first [];
          dots = (if jsi_ge first (Some 7) then dots @ [\<lparr>type = Gap, row = Some 0, col = Some 7\<rparr>]
                  else dots)
      in allDays 0 days first passed dots)"

text \<open>
  What the route draws for one dot: nothing for an empty slot or a gap, otherwise an
  image of side \<open>size\<close> whose top left corner is at \<open>(left, top)\<close> inside the card.
\<close>

datatype shape = CrossShape | TodayShape | DotShape

datatype drawable = Null | Svg shape jsnum jsnum jsnum

definition drawDot :: "grid_geometry \<Rightarrow> dot \<Rightarrow> drawable" where
  "drawDot g d =
     (let x = js_add (js_mul (to_num (col d)) (cellWidth g)) (js_div (cellWidth g) (Num 2));
          y = js_add (js_mul (to_num (row d)) (cellHeight g)) (js_div (cellHeight g) (Num 2))
      in if type d = Empty \<or> type d = Gap then Null
         else if type d = Cross then
           (let size = js_mul (dotSize g) (Num 1)
            in Svg CrossShape size (js_sub x (js_div size (Num 2))) (js_sub y (js_div size (Num 2))))
         else if type d = Today then
           (let size = js_mul (dotSize g) (Num 1.8)
            in Svg TodayShape size (js_sub x (js_div size (Num 2))) (js_sub y (js_div size (Num 2))))
         else Svg DotShape (dotSize g)
                (js_sub x (js_div (dotSize g) (Num 2))) (js_sub y (js_div (dotSize g) (Num 2))))"

text \<open>
  The two errors the specification names. No surface raises either of them: the
  handlers below return a response on every input.
\<close>

datatype error = InvalidDateInput | InvalidCanvasSize

record image_response =
  imageWidth :: jsnum
  imageHeight :: jsnum
  geometry :: grid_geometry
  cardTop :: jsnum
  drawables :: "drawable list"
  daysLeft :: jsint

text \<open>
  The handler, from the parsed query parameters: \<open>width\<close> and \<open>height\<close> are the results
  of \<^verbatim>\<open>parseInt\<close>, \<open>now\<close> is the result of \<^verbatim>\<open>new Date(dateStr)\<close>, an \<^verbatim>\<open>Invalid Date\<close> when
  the string does not parse, and \<open>z\<close> is the time zone of the runtime.
\<close>

definition GET_dynamic :: "zone \<Rightarrow> jsnum \<Rightarrow> jsnum \<Rightarrow> jsdate \<Rightarrow> error + image_response" where
  "GET_dynamic z width height now =
     (let days = totalDays z now;
          passed = daysPassed z now;
          first = firstDayOfWeek z now;
          g = gridGeometry width height (to_num (totalRows z now));
          dots = generateDots days first passed
      in Inr \<lparr>imageWidth = width, imageHeight = height, geometry = g,
              cardTop = js_mul height (Num 0.35),
              drawables = map (drawDot g) dots,
              daysLeft = jsi_sub (jsi_sub days passed) (Some 1)\<rparr>)"

section \<open>The configurable image route\<close>

text \<open>
  This route writes the drawing as SVG elements in canvas coordinates: a cross is two
  lines, a day is a circle. Its loop over the empty slots has an empty body.
\<close>

datatype svg_element =
  Line jsnum jsnum jsnum jsnum jsnum
| Circle jsnum jsnum jsnum string

definition dayElements ::
  "grid_geometry \<Rightarrow> jsnum \<Rightarrow> jsnum \<Rightarrow> jsint \<Rightarrow> jsint \<Rightarrow> nat \<Rightarrow> svg_element list" where
  "dayElements g cardX cardY first passed dayOffset =
     (let totalOffset = jsi_add first (Some (int dayOffset));
          r = rowOf totalOffset;
          c = colOf totalOffset;
          isPassed = jsi_lt (Some (int dayOffset)) passed;
          isToday = jsi_eq (Some (int dayOffset)) passed;
          x = js_add (js_add (js_add cardX (padding g)) (js_mul (to_num c) (cellWidth g)))
                (js_div (cellWidth g) (Num 2));
          y = js_add (js_add (js_add cardY (padding g)) (js_mul (to_num r) (cellHeight g)))
                (js_div (cellHeight g) (Num 2))
      in if isPassed then
           (let size = dotSize g;
                offset = js_mul size (Num 0.4)
            in [Line (js_sub x offset) (js_sub y offset) (js_add x offset) (js_add y offset)
                  (js_mul size (Num 0.2)),
                Line (js_add x offset) (js_sub y offset) (js_sub x offset) (js_add y offset)
                  (js_mul size (Num 0.2))])
         else if isToday then [Circle x y (js_mul (dotSize g) (Num 0.9)) ''#F55E00'']
         else [Circle x y (js_mul (dotSize g) (Num 0.4)) ''#D9D9D9''])"

function svgDays ::
  "nat \<Rightarrow> jsint \<Rightarrow> grid_geometry \<Rightarrow> jsnum \<Rightarrow> jsnum \<Rightarrow> jsint \<Rightarrow> jsint \<Rightarrow> svg_element list
     \<Rightarrow> svg_element list" where
  "svgDays dayOffset days g cardX cardY first passed svgElements =
     (if jsi_lt (Some (int dayOffset)) days
      then svgDays (Suc dayOffset) days g cardX cardY first passed
             (svgElements @ dayElements g cardX cardY first passed dayOffset)
      else svgElements)"
  by pat_completeness auto
termination
  by (relation "measure (\<lambda>(i, days, g, cardX, cardY, first, passed, els).
        case days of None \<Rightarrow> 0 | Some n \<Rightarrow> nat (n - int i))")
     (auto simp: jsi_lt_def split: option.splits)

record svg_response =
  contentType :: string
  svgWidth :: jsnum
  svgHeight :: jsnum
  cardX :: jsnum
  cardY :: jsnum
  grid :: grid_geometry
  borderRadius :: jsnum
  svgElements :: "svg_element list"
  labelDaysLeft :: jsint

definition GET_configurable ::
  "zone \<Rightarrow> jsnum \<Rightarrow> jsnum \<Rightarrow> jsdate \<Rightarrow> string \<Rightarrow> error + svg_response" where
  "GET_configurable z width height now format =
     (let days = totalDays z now;
          passed = daysPassed z now;
          first = firstDayOfWeek z now;
          g = gridGeometry width height (to_num (totalRows z now));
          radius = js_mul (js_min (cardWidth g) (cardHeight g)) (Num 0.04);
          cx = js_div (js_sub width (cardWidth g)) (Num 2);
          cy = js_mul height (Num 0.35);
          els = svgDays 0 days g cx cy first passed []
      in Inr \<lparr>contentType = (if format = ''svg'' then ''image/svg+xml'' else ''image/png''),
              svgWidth = width, svgHeight = height, cardX = cx, cardY = cy, grid = g,
              borderRadius = radius, svgElements = els,
              labelDaysLeft = jsi_sub (jsi_sub days passed) (Some 1)\<rparr>)"

section \<open>The interactive component\<close>

text \<open>
  The children of the grid element, in order. \<^verbatim>\<open>range\<close> is the utility library's:
  \<^verbatim>\<open>range(n)\<close> counts from 0 up to \<open>n\<close>, down to \<open>n\<close> when \<open>n\<close> is negative, and is empty
  on \<^verbatim>\<open>NaN\<close>.
\<close>

datatype child =
  EmptyStart jsnum
| GapFirst
| GapSpacer
| CrossIcon jsnum
| TodayIcon jsnum
| DotIcon jsnum

definition lodash_range :: "jsint \<Rightarrow> int list" where
  "lodash_range n = (case n of None \<Rightarrow> []
     | Some k \<Rightarrow> (if 0 \<le> k then map int [0..<nat k] else map (\<lambda>j. - int j) [0..<nat (- k)]))"

definition dayFragment :: "jsnum \<Rightarrow> jsint \<Rightarrow> jsint \<Rightarrow> int \<Rightarrow> child list" where
  "dayFragment dsize first passed dayOffset =
     (let totalOffset = jsi_add first (Some dayOffset);
          positionInRow = rem14 totalOffset;
          needsGapBefore = jsi_eq positionInRow (Some 7);
          isPassed = jsi_lt (Some dayOffset) passed;
          isToday = jsi_eq (Some dayOffset) passed
      in (if needsGapBefore then [GapSpacer] else []) @
         [if isPassed then CrossIcon (js_mul dsize (Num 1.3))
          else if isToday then TodayIcon (js_mul dsize (Num 1.8))
          else DotIcon dsize])"

definition gridChildren :: "jsnum \<Rightarrow> jsint \<Rightarrow> jsint \<Rightarrow> jsint \<Rightarrow> child list" where
  "gridChildren dsize days first passed =
     map (\<lambda>i. EmptyStart dsize) (lodash_range first) @
     (if jsi_ge first (Some 7) then [GapFirst] else []) @
     concat (map (dayFragment dsize first passed) (lodash_range days))"

record component_view =
  viewWidth :: jsnum
  viewHeight :: jsnum
  viewCard :: card_geometry
  children :: "child list"
  viewDaysLeft :: jsint

definition DailyDots :: "zone \<Rightarrow> jsdate \<Rightarrow> jsnum \<Rightarrow> jsnum \<Rightarrow> component_view" where
  "DailyDots z now width height =
     (let days = totalDays z now;
          passed = daysPassed z now;
          first = firstDayOfWeek z now;
          g = cardGeometry width height (to_num (totalRows z now))
      in \<lparr>viewWidth = width, viewHeight = height, viewCard = g,
          children = gridChildren (dotSize g) days first passed,
          viewDaysLeft = jsi_sub (jsi_sub days passed) (Some 1)\<rparr>)"

section \<open>Reading the output\<close>

text \<open>
  The day cells among the dots of the dynamic image route are the dots that are neither
  empty slots nor gaps; the marks of today are the \<^verbatim>\<open>today\<close> dot, the \<^verbatim>\<open>TodayIcon\<close> child
  and the circle filled in orange.
\<close>

definition isDay :: "dot \<Rightarrow> bool" where
  "isDay d = (case type d of Empty \<Rightarrow> False | Gap \<Rightarrow> False | Cross \<Rightarrow> True | Today \<Rightarrow> True | Dot \<Rightarrow> True)"

definition isTodayDot :: "dot \<Rightarrow> bool" where
  "isTodayDot d = (type d = Today)"

fun isTodayIcon :: "child \<Rightarrow> bool" where
  "isTodayIcon (TodayIcon s) = True"
| "isTodayIcon c = False"

fun isTodayCircle :: "svg_element \<Rightarrow> bool" where
  "isTodayCircle (Circle cx cy r fill) = (fill = ''#F55E00'')"
| "isTodayCircle e = False"

text \<open>The kind a day index has by the claim: past, today or future.\<close>

definition kindOf :: "int \<Rightarrow> int \<Rightarrow> dot_type" where
  "kindOf dayIndex elapsedDays =
     (if dayIndex < elapsedDays then Cross else if dayIndex = elapsedDays then Today else Dot)"

text \<open>The number of iterations of a loop that counts up from 0 while below \<open>n\<close>.\<close>

definition bound :: "jsint \<Rightarrow> nat" where
  "bound n = (case n of None \<Rightarrow> 0 | Some k \<Rightarrow> nat k)"

text \<open>A sample reference date: noon of 2 January 2025, a year that starts on a Wednesday.\<close>

definition jan2 :: jsdate where
  "jan2 = Date \<lparr>fullYear = 2025, dayOfYear = 1, hours = 12, minutes = 0,
      seconds = 0, milliseconds = 0\<rparr>"

text \<open>The Gregorian rule for leap years.\<close>

definition isLeapYear :: "int \<Rightarrow> bool" where
  "isLeapYear y \<longleftrightarrow> (y mod 4 = 0 \<and> y mod 100 \<noteq> 0) \<or> y mod 400 = 0"

text \<open>
  A plain year for a date and a zone: a year the runtime can hold from its first to its
  last millisecond (the years -271820 to 275759), in a zone where the four local times
  that \<^verbatim>\<open>startOfYear\<close> and \<^verbatim>\<open>endOfYear\<close> ask for exist: the date's time of day on the first and on the
  last day of the year, the first millisecond and the last millisecond of the year.
\<close>

definition plainYear :: "zone \<Rightarrow> local_date \<Rightarrow> bool" where
  "plainYear z d \<longleftrightarrow>
     - 271820 \<le> fullYear d \<and> fullYear d \<le> 275759 \<and>
     z (d\<lparr>dayOfYear := 0\<rparr>) = d\<lparr>dayOfYear := 0\<rparr> \<and>
     z (d\<lparr>dayOfYear := 0, hours := 0, minutes := 0, seconds := 0, milliseconds := 0\<rparr>) =
       d\<lparr>dayOfYear := 0, hours := 0, minutes := 0, seconds := 0, milliseconds := 0\<rparr> \<and>
     z (d\<lparr>dayOfYear := lastDayOfYear (fullYear d)\<rparr>) = d\<lparr>dayOfYear := lastDayOfYear (fullYear d)\<rparr> \<and>
     z (d\<lparr>dayOfYear := lastDayOfYear (fullYear d), hours := 23, minutes := 59, seconds := 59,
          milliseconds := 999\<rparr>) =
       d\<lparr>dayOfYear := lastDayOfYear (fullYear d), hours := 23, minutes := 59, seconds := 59,
          milliseconds := 999\<rparr>"

text \<open>
  A zone that drops the last day of year \<open>y\<close> at the date line: a local time asked for
  on that day is moved to the next day, 1 January of the next year. Every other local
  time exists.
\<close>

definition skipsLastDay :: "int \<Rightarrow> zone" where
  "skipsLastDay y l =
     (if fullYear l = y \<and> dayOfYear l = lastDayOfYear y
      then l\<lparr>fullYear := y + 1, dayOfYear := 0\<rparr> else l)"

text \<open>The kind of day a child of the component and an element of the configurable route show.\<close>

fun childKind :: "child \<Rightarrow> dot_type option" where
  "childKind (CrossIcon s) = Some Cross"
| "childKind (TodayIcon s) = Some Today"
| "childKind (DotIcon s) = Some Dot"
| "childKind c = None"

fun elementKind :: "svg_element \<Rightarrow> dot_type" where
  "elementKind (Line x1 y1 x2 y2 w) = Cross"
| "elementKind (Circle cx cy r fill) = (if fill = ''#F55E00'' then Today else Dot)"

text \<open>A cross is two strokes, a day of another kind is one circle.\<close>

definition strokes :: "dot_type \<Rightarrow> dot_type list" where
  "strokes k = (if k = Cross then [Cross, Cross] else [k])"

text \<open>The point an element is centred on: the centre of a circle, the middle of a line.\<close>

fun anchor :: "svg_element \<Rightarrow> jsnum \<times> jsnum" where
  "anchor (Circle cx cy r fill) = (cx, cy)"
| "anchor (Line x1 y1 x2 y2 w) = (js_div (js_add x1 x2) (Num 2), js_div (js_add y1 y2) (Num 2))"

text \<open>
  The centre of the cell in column \<open>c\<close> and in row \<open>r\<close>, in canvas coordinates, for a card
  whose corner is at \<open>(ox, oy)\<close>:
  \<^verbatim>\<open>centerX = cardLeft + padding + col*cellW + cellW/2\<close> and
  \<^verbatim>\<open>centerY = cardTop + padding + row*cellH + cellH/2\<close>.
\<close>

definition centerX :: "grid_geometry \<Rightarrow> jsnum \<Rightarrow> int \<Rightarrow> jsnum" where
  "centerX g ox c =
     js_add (js_add (js_add ox (padding g)) (js_mul (Num (of_int c)) (cellWidth g)))
       (js_div (cellWidth g) (Num 2))"

definition centerY :: "grid_geometry \<Rightarrow> jsnum \<Rightarrow> int \<Rightarrow> jsnum" where
  "centerY g oy r =
     js_add (js_add (js_add oy (padding g)) (js_mul (Num (of_int r)) (cellHeight g)))
       (js_div (cellHeight g) (Num 2))"

section \<open>Facts about the calendar\<close>

lemma div_step_gen:
  fixes a k :: int
  assumes "0 < k"
  shows "(a + 1) div k = a div k + (if (a + 1) mod k = 0 then 1 else 0)"
proof (cases "(a + 1) mod k = 0")
  case True
  then obtain q where q: "a + 1 = k * q" by (auto simp: mod_eq_0_iff_dvd)
  have "a = k * (q - 1) + (k - 1)" using q by (simp add: algebra_simps)
  then have "a div k = q - 1"
    using assms by (intro int_div_pos_eq [where r = "k - 1"]) simp_all
  moreover have "(a + 1) div k = q" using q assms by simp
  ultimately show ?thesis using True by simp
next
  case False
  have r: "a mod k < k" "0 \<le> a mod k" using assms by simp_all
  have ne: "a mod k + 1 \<noteq> k"
  proof
    assume "a mod k + 1 = k"
    then have "(a + 1) mod k = 0"
      by (metis mod_add_left_eq mod_self)
    with False show False by simp
  qed
  have lt: "0 \<le> a mod k + 1" "a mod k + 1 < k"
    using r ne by linarith+
  have "a + 1 = k * (a div k) + (a mod k + 1)" by simp
  then have "(a + 1) div k = a div k"
    using lt by (rule int_div_pos_eq)
  with False show ?thesis by simp
qed

lemma year_mod:
  fixes y :: int
  shows "(y - 1968) mod 4 = y mod 4" "(y - 1900) mod 100 = y mod 100" "(y - 1600) mod 400 = y mod 400"
proof -
  have "(y + 4 * (- 492)) mod 4 = y mod 4" by (rule mod_mult_self2)
  then show "(y - 1968) mod 4 = y mod 4" by simp
  have "(y + 100 * (- 19)) mod 100 = y mod 100" by (rule mod_mult_self2)
  then show "(y - 1900) mod 100 = y mod 100" by simp
  have "(y + 400 * (- 4)) mod 400 = y mod 400" by (rule mod_mult_self2)
  then show "(y - 1600) mod 400 = y mod 400" by simp
qed

lemma year_dvd:
  fixes y :: int
  shows "y mod 400 = 0 \<Longrightarrow> y mod 100 = 0" "y mod 100 = 0 \<Longrightarrow> y mod 4 = 0"
proof -
  have a: "(100::int) dvd 400" "(4::int) dvd 100" by simp_all
  show "y mod 400 = 0 \<Longrightarrow> y mod 100 = 0"
    using a(1) by (auto simp: mod_eq_0_iff_dvd intro: dvd_trans)
  show "y mod 100 = 0 \<Longrightarrow> y mod 4 = 0"
    using a(2) by (auto simp: mod_eq_0_iff_dvd intro: dvd_trans)
qed

lemma DayFromYear_step: "DayFromYear (y + 1) - DayFromYear y = (if isLeapYear y then 366 else 365)"
proof -
  have 4: "(y - 1968) div 4 = (y - 1969) div 4 + (if y mod 4 = 0 then 1 else 0)"
    using div_step_gen [of 4 "y - 1969"] by (simp add: year_mod)
  have 100: "(y - 1900) div 100 = (y - 1901) div 100 + (if y mod 100 = 0 then 1 else 0)"
    using div_step_gen [of 100 "y - 1901"] by (simp add: year_mod)
  have 400: "(y - 1600) div 400 = (y - 1601) div 400 + (if y mod 400 = 0 then 1 else 0)"
    using div_step_gen [of 400 "y - 1601"] by (simp add: year_mod)
  have "DayFromYear (y + 1) - DayFromYear y =
          365 + ((y - 1968) div 4 - (y - 1969) div 4) - ((y - 1900) div 100 - (y - 1901) div 100)
              + ((y - 1600) div 400 - (y - 1601) div 400)"
    by (simp add: DayFromYear_def algebra_simps)
  then show ?thesis
    using year_dvd [of y] by (auto simp: 4 100 400 isLeapYear_def)
qed

lemma DayFromYear_mono: "a \<le> b \<Longrightarrow> DayFromYear a \<le> DayFromYear b"
proof (induction b rule: int_ge_induct)
  case base
  show ?case by simp
next
  case (step i)
  have "DayFromYear i \<le> DayFromYear (i + 1)"
    using DayFromYear_step [of i] by (simp split: if_splits)
  with step show ?case by simp
qed

lemma DayFromYear_limits:
  "DayFromYear (- 271820) = - 99999744" "DayFromYear 275760 = 99999744"
  by (simp_all add: DayFromYear_def)


lemma daysInYear_eq: "daysInYear y = (if isLeapYear y then 366 else 365)"
  by (simp add: daysInYear_def DayFromYear_step)

lemma lastDayOfYear_eq: "lastDayOfYear y = (if isLeapYear y then 365 else 364)"
  using DayFromYear_step [of y] by (simp add: lastDayOfYear_def)

lemma msOfDay_bounds:
  assumes "0 \<le> hours l" "hours l \<le> 23" "0 \<le> minutes l" "minutes l \<le> 59"
    "0 \<le> seconds l" "seconds l \<le> 59" "0 \<le> milliseconds l" "milliseconds l \<le> 999"
  shows "0 \<le> msOfDay l" "msOfDay l \<le> 86399999"
  using assms by (simp_all add: msOfDay_def)

lemma inRange_plain:
  assumes "- 271820 \<le> fullYear l" "fullYear l \<le> 275759"
    "0 \<le> dayOfYear l" "dayOfYear l \<le> lastDayOfYear (fullYear l)"
    "0 \<le> msOfDay l" "msOfDay l \<le> 86399999"
  shows "inRange l"
proof -
  have lo: "- 99999744 \<le> DayFromYear (fullYear l)"
    using DayFromYear_mono [OF assms(1)] by (simp add: DayFromYear_limits)
  have "DayFromYear (fullYear l + 1) \<le> DayFromYear 275760"
    using assms(2) by (intro DayFromYear_mono) simp
  then have hi: "DayFromYear (fullYear l) + dayOfYear l \<le> 99999743"
    using assms(4) by (simp add: lastDayOfYear_def DayFromYear_limits)
  show ?thesis
    using lo hi assms(3,5,6) by (simp add: inRange_def timeValue_def dayNumber_def)
qed

section \<open>Facts about the temporal model\<close>

lemmas date_defs = differenceInDays_def compareLocalAsc_def compareTimeOfDay_def sign_int_def
  differenceInCalendarDays_def dayNumber_def

text \<open>In a plain year the start and the end of the year are the dates asked for.\<close>

lemma startOfYear_plain:
  assumes "valid_date d" "plainYear z d"
  shows "startOfYear z (Date d) =
    Date (d\<lparr>dayOfYear := 0, hours := 0, minutes := 0, seconds := 0, milliseconds := 0\<rparr>)"
proof -
  have y: "- 271820 \<le> fullYear d" "fullYear d \<le> 275759"
    using assms(2) by (simp_all add: plainYear_def)
  have l: "0 \<le> lastDayOfYear (fullYear d)"
    by (simp add: lastDayOfYear_eq)
  have ms: "0 \<le> msOfDay d" "msOfDay d \<le> 86399999"
    using assms(1) by (auto simp: valid_date_def intro!: msOfDay_bounds)
  have 1: "inRange (d\<lparr>dayOfYear := 0\<rparr>)"
    using y l ms by (intro inRange_plain) (simp_all add: msOfDay_def)
  have 2: "inRange (d\<lparr>dayOfYear := 0, hours := 0, minutes := 0, seconds := 0, milliseconds := 0\<rparr>)"
    using y l by (intro inRange_plain) (simp_all add: msOfDay_def)
  show ?thesis
    using assms(2) 1 2 by (simp add: startOfYear_def setLocal_def plainYear_def)
qed

lemma endOfYear_plain:
  assumes "valid_date d" "plainYear z d"
  shows "endOfYear z (Date d) =
    Date (d\<lparr>dayOfYear := lastDayOfYear (fullYear d), hours := 23, minutes := 59, seconds := 59,
            milliseconds := 999\<rparr>)"
proof -
  have y: "- 271820 \<le> fullYear d" "fullYear d \<le> 275759"
    using assms(2) by (simp_all add: plainYear_def)
  have l: "0 \<le> lastDayOfYear (fullYear d)"
    by (simp add: lastDayOfYear_eq)
  have ms: "0 \<le> msOfDay d" "msOfDay d \<le> 86399999"
    using assms(1) by (auto simp: valid_date_def intro!: msOfDay_bounds)
  have 1: "inRange (d\<lparr>dayOfYear := lastDayOfYear (fullYear d)\<rparr>)"
    using y l ms by (intro inRange_plain) (simp_all add: msOfDay_def)
  have 2: "inRange (d\<lparr>dayOfYear := lastDayOfYear (fullYear d), hours := 23, minutes := 59,
              seconds := 59, milliseconds := 999\<rparr>)"
    using y l by (intro inRange_plain) (simp_all add: msOfDay_def)
  show ?thesis
    using assms(2) 1 2 by (simp add: endOfYear_def setLocal_def plainYear_def)
qed

lemma totalDays_plain:
  assumes "valid_date d" "plainYear z d"
  shows "totalDays z (Date d) = Some (if isLeapYear (fullYear d) then 366 else 365)"
  by (simp add: totalDays_def startOfYear_plain [OF assms] endOfYear_plain [OF assms] date_defs
        jsi_add_def Let_def lastDayOfYear_eq)

lemma daysPassed_plain:
  assumes "valid_date d" "plainYear z d"
  shows "daysPassed z (Date d) = Some (dayOfYear d)"
  using assms(1)
  by (auto simp: daysPassed_def startOfYear_plain [OF assms] date_defs Let_def valid_date_def)

lemma temporal_Invalid:
  "totalDays z Invalid_Date = None" "daysPassed z Invalid_Date = None"
  "firstDayOfWeek z Invalid_Date = None" "totalRows z Invalid_Date = None"
  by (simp_all add: totalDays_def daysPassed_def firstDayOfWeek_def totalRows_def startOfYear_def
        endOfYear_def differenceInDays_def getDay_def jsi_add_def jsi_eq_def jsi_sub_def
        ceil_div14_def)

text \<open>The weekday offset is a number from 0 to 6, or \<^verbatim>\<open>NaN\<close> when the year has no start.\<close>

lemma firstDayOfWeek_range:
  "(case firstDayOfWeek z now of None \<Rightarrow> startOfYear z now = Invalid_Date
    | Some k \<Rightarrow> 0 \<le> k \<and> k \<le> 6)"
proof (cases "startOfYear z now")
  case Invalid_Date
  then show ?thesis
    by (simp add: firstDayOfWeek_def getDay_def jsi_eq_def jsi_sub_def)
next
  case (Date s)
  obtain j where j: "getDay (Date s) = Some j" "0 \<le> j" "j < 7"
    by (simp add: getDay_def)
  then show ?thesis
    by (auto simp: firstDayOfWeek_def Date jsi_eq_def jsi_sub_def Let_def)
qed

lemma firstDayOfWeek_plain:
  assumes "valid_date d" "plainYear z d"
  shows "\<exists>k. firstDayOfWeek z (Date d) = Some k \<and> 0 \<le> k \<and> k \<le> 6"
  using firstDayOfWeek_range [of z "Date d"]
  by (simp add: startOfYear_plain [OF assms] split: option.splits)

lemma ceil_div14_27: "365 \<le> x \<Longrightarrow> x \<le> 372 \<Longrightarrow> ceil_div14 (Some x) = Some 27"
  by (simp add: ceil_div14_def ceiling_eq_iff)

lemma totalRows_plain:
  assumes "valid_date d" "plainYear z d"
  shows "totalRows z (Date d) = Some 27"
proof -
  obtain k where k: "firstDayOfWeek z (Date d) = Some k" "0 \<le> k" "k \<le> 6"
    using firstDayOfWeek_plain [OF assms] by blast
  show ?thesis
    using k by (auto simp: totalRows_def totalDays_plain [OF assms] jsi_add_def intro!: ceil_div14_27)
qed

lemma plainYear_utc: "- 271820 \<le> fullYear d \<Longrightarrow> fullYear d \<le> 275759 \<Longrightarrow> plainYear utc d"
  by (simp add: plainYear_def utc_def)

text \<open>
  Claim C4, as amended. For every valid reference date of a plain year (a year from
  -271820 to 275759, in a zone that skips none of the local times at which the year
  starts and ends), the number of days of the year, computed as the whole-day
  difference from the start of the year to its end plus one, is 365 or 366, and it is
  366 exactly when the year is a Gregorian leap year.
\<close>

theorem C4_totalDays:
  assumes "valid_date d" "plainYear z d"
  shows "totalDays z (Date d) \<in> {Some 365, Some 366} \<and>
         (totalDays z (Date d) = Some 366 \<longleftrightarrow> isLeapYear (fullYear d))"
  by (simp add: totalDays_plain [OF assms])

theorem C4_totalDays_witness:
  "valid_date \<lparr>fullYear = 2024, dayOfYear = 152, hours = 0, minutes = 0, seconds = 0,
      milliseconds = 0\<rparr> \<and>
   plainYear utc \<lparr>fullYear = 2024, dayOfYear = 152, hours = 0, minutes = 0, seconds = 0,
      milliseconds = 0\<rparr> \<and>
   totalDays utc (Date \<lparr>fullYear = 2024, dayOfYear = 152, hours = 0, minutes = 0, seconds = 0,
      milliseconds = 0\<rparr>) = Some 366"
proof -
  have v: "valid_date \<lparr>fullYear = 2024, dayOfYear = 152, hours = 0, minutes = 0, seconds = 0,
      milliseconds = 0\<rparr>"
    by (simp add: valid_date_def daysInYear_def DayFromYear_def inRange_def timeValue_def
          dayNumber_def msOfDay_def)
  have p: "plainYear utc \<lparr>fullYear = 2024, dayOfYear = 152, hours = 0, minutes = 0, seconds = 0,
      milliseconds = 0\<rparr>"
    by (simp add: plainYear_def utc_def)
  show ?thesis
    using C4_totalDays [OF v p] v p by (simp add: isLeapYear_def)
qed

text \<open>
  Claim C4 as stated fails. 1 January 275760 is a valid date, the last day of that
  year is beyond the last instant a date can hold, and the number of days is \<^verbatim>\<open>NaN\<close>.
  In a zone that dropped 31 December 1994, the number of days of 1994, not a leap
  year, is 366.
\<close>

theorem C4_totalDays_counterexample:
  "valid_date \<lparr>fullYear = 275760, dayOfYear = 0, hours = 0, minutes = 0, seconds = 0,
      milliseconds = 0\<rparr> \<and>
   totalDays utc (Date \<lparr>fullYear = 275760, dayOfYear = 0, hours = 0, minutes = 0, seconds = 0,
      milliseconds = 0\<rparr>) = None \<and>
   valid_date \<lparr>fullYear = 1994, dayOfYear = 100, hours = 12, minutes = 0, seconds = 0,
      milliseconds = 0\<rparr> \<and>
   totalDays (skipsLastDay 1994) (Date \<lparr>fullYear = 1994, dayOfYear = 100, hours = 12,
      minutes = 0, seconds = 0, milliseconds = 0\<rparr>) = Some 366 \<and>
   \<not> isLeapYear 1994"
  by (simp add: valid_date_def daysInYear_def DayFromYear_def inRange_def timeValue_def
        dayNumber_def msOfDay_def totalDays_def endOfYear_def startOfYear_def setLocal_def
        lastDayOfYear_def utc_def skipsLastDay_def jsi_add_def isLeapYear_def date_defs)

text \<open>
  Claim C5, as amended. For every valid reference date of a plain year the days passed
  lie between 0 and the number of days of the year minus one, and they are 0 exactly
  when the date falls on 1 January, at any time of that day.
\<close>

theorem C5_elapsed_range:
  assumes "valid_date d" "plainYear z d"
  shows "\<exists>e n. daysPassed z (Date d) = Some e \<and> totalDays z (Date d) = Some n \<and>
           0 \<le> e \<and> e < n \<and> (e = 0 \<longleftrightarrow> dayOfYear d = 0)"
  using assms(1)
  by (simp add: daysPassed_plain [OF assms] totalDays_plain [OF assms] valid_date_def daysInYear_eq)

theorem C5_elapsed_range_witness:
  "valid_date \<lparr>fullYear = 2025, dayOfYear = 364, hours = 23, minutes = 59, seconds = 59,
      milliseconds = 0\<rparr> \<and>
   plainYear utc \<lparr>fullYear = 2025, dayOfYear = 364, hours = 23, minutes = 59, seconds = 59,
      milliseconds = 0\<rparr> \<and>
   daysPassed utc (Date \<lparr>fullYear = 2025, dayOfYear = 364, hours = 23, minutes = 59,
      seconds = 59, milliseconds = 0\<rparr>) = Some 364 \<and>
   totalDays utc (Date \<lparr>fullYear = 2025, dayOfYear = 364, hours = 23, minutes = 59,
      seconds = 59, milliseconds = 0\<rparr>) = Some 365"
proof -
  have v: "valid_date \<lparr>fullYear = 2025, dayOfYear = 364, hours = 23, minutes = 59, seconds = 59,
      milliseconds = 0\<rparr>"
    by (simp add: valid_date_def daysInYear_def DayFromYear_def inRange_def timeValue_def
          dayNumber_def msOfDay_def)
  have p: "plainYear utc \<lparr>fullYear = 2025, dayOfYear = 364, hours = 23, minutes = 59,
      seconds = 59, milliseconds = 0\<rparr>"
    by (simp add: plainYear_def utc_def)
  have "daysPassed utc (Date \<lparr>fullYear = 2025, dayOfYear = 364, hours = 23, minutes = 59,
      seconds = 59, milliseconds = 0\<rparr>) = Some 364"
    by (simp add: daysPassed_plain [OF v p])
  moreover have "totalDays utc (Date \<lparr>fullYear = 2025, dayOfYear = 364, hours = 23,
      minutes = 59, seconds = 59, milliseconds = 0\<rparr>) = Some 365"
    by (simp add: totalDays_plain [OF v p] isLeapYear_def)
  ultimately show ?thesis
    using C5_elapsed_range [OF v p] v p by simp
qed

text \<open>
  Claim C5 as stated fails: at noon of 1 January 2025 no day has passed, and that
  instant is not the first instant of the year.
\<close>

theorem C5_elapsed_zero_counterexample:
  "daysPassed utc (Date \<lparr>fullYear = 2025, dayOfYear = 0, hours = 12, minutes = 0,
      seconds = 0, milliseconds = 0\<rparr>) = Some 0 \<and>
   Date \<lparr>fullYear = 2025, dayOfYear = 0, hours = 12, minutes = 0, seconds = 0,
      milliseconds = 0\<rparr>
     \<noteq> startOfYear utc (Date \<lparr>fullYear = 2025, dayOfYear = 0, hours = 12, minutes = 0,
      seconds = 0, milliseconds = 0\<rparr>)"
  by (simp add: daysPassed_def startOfYear_def setLocal_def utc_def inRange_def timeValue_def
        msOfDay_def DayFromYear_def date_defs)

section \<open>Facts about the geometry\<close>

lemmas geometry_defs = gridGeometry_def cardGeometry_def js_sub_def card_geometry.extend_def Let_def

text \<open>
  Claim C2. For a canvas of positive width \<open>W\<close> and height \<open>H\<close> and at least one row,
  the geometry is, in exact rational arithmetic: the card is 0.75 of the width and
  0.48 of the height, the padding 0.04 of the smaller card side, the available space
  the card less the padding on both sides, the gap the smaller of the available width
  over 15 times 4 and the available height over the rows times 4, the dot 1.5 gaps,
  and a cell the available width over 15 by the available height over the rows.
\<close>

theorem C2_resolved_geometry:
  assumes "0 < W" "0 < H" "1 \<le> rows"
  shows "let cardW = 0.75 * W;
             cardH = 0.48 * H;
             pad = 0.04 * min cardW cardH;
             availableW = cardW - 2 * pad;
             availableH = cardH - 2 * pad;
             gap = min (availableW / (15 * 4)) (availableH / (of_int rows * 4))
         in gridGeometry (Num W) (Num H) (Num (of_int rows)) =
              \<lparr>cardWidth = Num cardW, cardHeight = Num cardH, padding = Num pad,
               availableWidth = Num availableW, availableHeight = Num availableH,
               uniformGap = Num gap, dotSize = Num (1.5 * gap),
               cellWidth = Num (availableW / 15), cellHeight = Num (availableH / of_int rows)\<rparr> \<and>
            cardGeometry (Num W) (Num H) (Num (of_int rows)) =
              \<lparr>cardWidth = Num cardW, cardHeight = Num cardH, padding = Num pad,
               availableWidth = Num availableW, availableHeight = Num availableH,
               uniformGap = Num gap, dotSize = Num (1.5 * gap)\<rparr>"
  using assms by (simp add: geometry_defs mult.commute)

theorem C2_resolved_geometry_witness:
  "gridGeometry (Num 390) (Num 844) (Num 27) =
     \<lparr>cardWidth = Num 292.5, cardHeight = Num 405.12, padding = Num 11.7,
      availableWidth = Num 269.1, availableHeight = Num 381.72,
      uniformGap = Num (3181 / 900), dotSize = Num (3181 / 600),
      cellWidth = Num 17.94, cellHeight = Num (3181 / 225)\<rparr>"
  using C2_resolved_geometry [of 390 844 27] by (simp add: Let_def)

text \<open>
  Claim C7. For a canvas of positive width and height and at least one row, doubling
  the width and the height doubles the card width and height, the padding, the gap,
  the dot size and the cell width and height.
\<close>

theorem C7_doubling:
  assumes "0 < W" "0 < H" "1 \<le> rows"
  shows "let g = gridGeometry (Num W) (Num H) (Num (of_int rows));
             g2 = gridGeometry (Num (2 * W)) (Num (2 * H)) (Num (of_int rows))
         in cardWidth g2 = js_mul (Num 2) (cardWidth g) \<and>
            cardHeight g2 = js_mul (Num 2) (cardHeight g) \<and>
            padding g2 = js_mul (Num 2) (padding g) \<and>
            uniformGap g2 = js_mul (Num 2) (uniformGap g) \<and>
            dotSize g2 = js_mul (Num 2) (dotSize g) \<and>
            cellWidth g2 = js_mul (Num 2) (cellWidth g) \<and>
            cellHeight g2 = js_mul (Num 2) (cellHeight g)"
proof -
  define M where "M = min (W * 3 / 4) (H * 12 / 25)"
  have k: "min (3 * W / 2) (24 * H / 25) = 2 * M"
    unfolding M_def by (simp add: min_def)
  define A where "A = (W * 3 / 4 - M * 2 / 25) / 60"
  define B where "B = (H * 12 / 25 - M * 2 / 25) / (rat_of_int rows * 4)"
  have a2: "(3 * W / 2 - 2 * M * 2 / 25) / 60 = 2 * A"
    unfolding A_def by (simp add: field_simps)
  have b2: "(24 * H / 25 - 2 * M * 2 / 25) / (rat_of_int rows * 4) = 2 * B"
    unfolding B_def using assms(3) by (simp add: field_simps)
  have g: "min (2 * A) (2 * B) = 2 * min A B"
    by (simp add: min_def)
  have "min ((3 * W / 2 - 2 * M * 2 / 25) / 60)
          ((24 * H / 25 - 2 * M * 2 / 25) / (rat_of_int rows * 4)) = 2 * min A B"
    by (simp only: a2 b2 g)
  then show ?thesis
    using assms k
    by (simp add: geometry_defs flip: M_def A_def B_def)
qed

theorem C7_doubling_witness:
  "dotSize (gridGeometry (Num 780) (Num 1688) (Num 27)) =
     js_mul (Num 2) (dotSize (gridGeometry (Num 390) (Num 844) (Num 27))) \<and>
   dotSize (gridGeometry (Num 780) (Num 1688) (Num 27)) = Num (3181 / 300)"
proof -
  have "dotSize (gridGeometry (Num (2 * 390)) (Num (2 * 844)) (Num (of_int 27))) =
     js_mul (Num 2) (dotSize (gridGeometry (Num 390) (Num 844) (Num (of_int 27))))"
    using C7_doubling [of 390 844 27] by (simp add: Let_def)
  moreover have "dotSize (gridGeometry (Num 780) (Num 1688) (Num 27)) = Num (3181 / 300)"
    by (simp add: geometry_defs)
  ultimately show ?thesis by simp
qed

section \<open>Facts about the grid\<close>

declare allDays.simps [simp del] emptySlots.simps [simp del] svgDays.simps [simp del]

lemma jsi_lt_bound: "jsi_lt (Some (int i)) n \<longleftrightarrow> i < bound n"
  by (auto simp: jsi_lt_def bound_def split: option.splits)

lemma allDays_eq:
  "allDays i days first passed dots = dots @ concat (map (dayDots first passed) [i..<bound days])"
proof (induction i days first passed dots rule: allDays.induct)
  case (1 i days first passed dots)
  show ?case
  proof (cases "i < bound days")
    case True
    then have "[i..<bound days] = i # [Suc i..<bound days]"
      by (simp add: upt_conv_Cons)
    with True 1 show ?thesis
      by (subst allDays.simps) (simp add: jsi_lt_bound)
  next
    case False
    then show ?thesis
      by (subst allDays.simps) (simp add: jsi_lt_bound)
  qed
qed

lemma emptySlots_eq:
  "emptySlots i first dots = dots @
     map (\<lambda>j. \<lparr>type = Empty, row = rowOf (Some (int j)), col = colOf (Some (int j))\<rparr>) [i..<bound first]"
proof (induction i first dots rule: emptySlots.induct)
  case (1 i first dots)
  show ?case
  proof (cases "i < bound first")
    case True
    then have "[i..<bound first] = i # [Suc i..<bound first]"
      by (simp add: upt_conv_Cons)
    with True 1 show ?thesis
      by (subst emptySlots.simps) (simp add: jsi_lt_bound Let_def)
  next
    case False
    then show ?thesis
      by (subst emptySlots.simps) (simp add: jsi_lt_bound)
  qed
qed

lemma svgDays_eq:
  "svgDays i days g cx cy first passed els =
     els @ concat (map (dayElements g cx cy first passed) [i..<bound days])"
proof (induction i days g cx cy first passed els rule: svgDays.induct)
  case (1 i days g cx cy first passed els)
  show ?case
  proof (cases "i < bound days")
    case True
    then have "[i..<bound days] = i # [Suc i..<bound days]"
      by (simp add: upt_conv_Cons)
    with True 1 show ?thesis
      by (subst svgDays.simps) (simp add: jsi_lt_bound)
  next
    case False
    then show ?thesis
      by (subst svgDays.simps) (simp add: jsi_lt_bound)
  qed
qed

lemma rowOf_Some: "rowOf (Some x) = Some (x div 14)"
proof -
  have "\<lfloor>(of_int x :: rat) / of_int 14\<rfloor> = x div 14"
    by (rule floor_divide_of_int_eq)
  then show ?thesis by (simp add: rowOf_def floor_div14_def)
qed

lemma colOf_Some:
  "0 \<le> x \<Longrightarrow> colOf (Some x) = Some (if x mod 14 < 7 then x mod 14 else x mod 14 + 1)"
  by (simp add: colOf_def rem14_def jsi_lt_def jsi_add_def)

lemma isDay_dayDots:
  "filter isDay (dayDots first passed i) =
     [\<lparr>type = (if jsi_lt (Some (int i)) passed then Cross
               else if jsi_eq (Some (int i)) passed then Today else Dot),
       row = rowOf (jsi_add first (Some (int i))), col = colOf (jsi_add first (Some (int i)))\<rparr>]"
  by (simp add: dayDots_def isDay_def Let_def)


lemma generateDots_eq:
  "generateDots days first passed =
     map (\<lambda>j. \<lparr>type = Empty, row = rowOf (Some (int j)), col = colOf (Some (int j))\<rparr>) [0..<bound first] @
     (if jsi_ge first (Some 7) then [\<lparr>type = Gap, row = Some 0, col = Some 7\<rparr>] else []) @
     concat (map (dayDots first passed) [0..<bound days])"
  by (simp add: generateDots_def allDays_eq emptySlots_eq Let_def)

lemma dayCells_eq:
  "filter isDay (generateDots days first passed) =
     map (\<lambda>i. \<lparr>type = (if jsi_lt (Some (int i)) passed then Cross
                       else if jsi_eq (Some (int i)) passed then Today else Dot),
               row = rowOf (jsi_add first (Some (int i))),
               col = colOf (jsi_add first (Some (int i)))\<rparr>) [0..<bound days]"
proof -
  have e: "filter isDay (map (\<lambda>j. \<lparr>type = Empty, row = rowOf (Some (int j)), col = colOf (Some (int j))\<rparr>) xs) = []" for xs
    by (induction xs) (simp_all add: isDay_def)
  have c: "filter isDay (concat (map (dayDots first passed) xs)) =
     map (\<lambda>i. \<lparr>type = (if jsi_lt (Some (int i)) passed then Cross
                       else if jsi_eq (Some (int i)) passed then Today else Dot),
               row = rowOf (jsi_add first (Some (int i))),
               col = colOf (jsi_add first (Some (int i)))\<rparr>) xs" for xs
    by (induction xs) (simp_all add: isDay_dayDots)
  show ?thesis
    by (simp add: generateDots_eq e c isDay_def)
qed

lemma col_range:
  fixes x :: int
  shows "0 \<le> (if x mod 14 < 7 then x mod 14 else x mod 14 + 1) \<and>
         (if x mod 14 < 7 then x mod 14 else x mod 14 + 1) \<le> 14 \<and>
         (if x mod 14 < 7 then x mod 14 else x mod 14 + 1) \<noteq> 7"
proof -
  have "0 \<le> x mod 14" "x mod 14 < 14" by simp_all
  then show ?thesis by auto
qed

lemma anchor_dayElements:
  assumes "padding g = Num pd" "cellWidth g = Num cw" "cellHeight g = Num ch" "dotSize g = Num ds"
    and "0 \<le> w + int i"
  shows "set (map anchor (dayElements g (Num ox) (Num oy) (Some w) passed i)) =
           {(centerX g (Num ox) (if (w + int i) mod 14 < 7 then (w + int i) mod 14
                                  else (w + int i) mod 14 + 1),
             centerY g (Num oy) ((w + int i) div 14))}"
  using assms(1-4)
  by (simp add: dayElements_def Let_def jsi_add_def rowOf_Some colOf_Some [OF assms(5)] to_num_def
        centerX_def centerY_def js_sub_def)

text \<open>
  Claim C1. For at least one day and a weekday offset from 0 to 6, the day cell of
  day index \<open>i\<close> is placed in row \<open>(offset + i) div 14\<close> and, with \<open>p = (offset + i) mod 14\<close>,
  in column \<open>p\<close> when \<open>p < 7\<close> and \<open>p + 1\<close> otherwise; so its column lies between 0 and
  14 and is never 7, the gap column. The dots of the dynamic image route hold one day
  cell per day, in that row and column. The configurable image route draws the days in
  order, and on a finite geometry every element it draws for day \<open>i\<close> is centred on the
  centre of the cell in that row and column.
\<close>

theorem C1_day_cell_placement:
  assumes "1 \<le> n" "0 \<le> w" "w \<le> 6" "int i < n"
    and "padding g = Num pd" "cellWidth g = Num cw" "cellHeight g = Num ch" "dotSize g = Num ds"
  shows "let off = w + int i;
             p = off mod 14;
             c = (if p < 7 then p else p + 1);
             r = off div 14;
             cells = filter isDay (generateDots (Some n) (Some w) passed)
         in length cells = nat n \<and>
            row (cells ! i) = Some r \<and>
            col (cells ! i) = Some c \<and>
            rowOf (jsi_add (Some w) (Some (int i))) = Some r \<and>
            colOf (jsi_add (Some w) (Some (int i))) = Some c \<and>
            svgDays 0 (Some n) g (Num ox) (Num oy) (Some w) passed [] =
              concat (map (dayElements g (Num ox) (Num oy) (Some w) passed) [0..<nat n]) \<and>
            set (map anchor (dayElements g (Num ox) (Num oy) (Some w) passed i)) =
              {(centerX g (Num ox) c, centerY g (Num oy) r)} \<and>
            0 \<le> c \<and> c \<le> 14 \<and> c \<noteq> 7"
proof -
  have i: "i < bound (Some n)"
    using assms(4) by (simp add: bound_def)
  have off: "0 \<le> w + int i"
    using assms(2) by simp
  have a: "jsi_add (Some w) (Some (int i)) = Some (w + int i)"
    by (simp add: jsi_add_def)
  have s: "svgDays 0 (Some n) g (Num ox) (Num oy) (Some w) passed [] =
              concat (map (dayElements g (Num ox) (Num oy) (Some w) passed) [0..<nat n])"
    by (simp add: svgDays_eq bound_def)
  note an = anchor_dayElements [OF assms(5-8) off, of ox oy passed]
  show ?thesis
    unfolding Let_def
    using i col_range [of "w + int i"] s an
    by (simp add: dayCells_eq a rowOf_Some colOf_Some [OF off] bound_def)
qed

theorem C1_day_cell_placement_witness:
  "row (filter isDay (generateDots (Some 365) (Some 2) (Some 0)) ! 5) = Some 0 \<and>
   col (filter isDay (generateDots (Some 365) (Some 2) (Some 0)) ! 5) = Some 8 \<and>
   row (filter isDay (generateDots (Some 365) (Some 2) (Some 0)) ! 364) = Some 26 \<and>
   col (filter isDay (generateDots (Some 365) (Some 2) (Some 0)) ! 364) = Some 2 \<and>
   set (map anchor (dayElements (gridGeometry (Num 390) (Num 844) (Num 27)) (Num 48.75) (Num 295.4)
          (Some 2) (Some 0) 5)) =
     {(centerX (gridGeometry (Num 390) (Num 844) (Num 27)) (Num 48.75) 8,
       centerY (gridGeometry (Num 390) (Num 844) (Num 27)) (Num 295.4) 0)} \<and>
   centerX (gridGeometry (Num 390) (Num 844) (Num 27)) (Num 48.75) 8 = Num 212.94"
proof -
  have g: "padding (gridGeometry (Num 390) (Num 844) (Num 27)) = Num 11.7"
    "cellWidth (gridGeometry (Num 390) (Num 844) (Num 27)) = Num 17.94"
    "cellHeight (gridGeometry (Num 390) (Num 844) (Num 27)) = Num (3181 / 225)"
    "dotSize (gridGeometry (Num 390) (Num 844) (Num 27)) = Num (3181 / 600)"
    by (simp_all add: geometry_defs)
  have x: "centerX (gridGeometry (Num 390) (Num 844) (Num 27)) (Num 48.75) 8 = Num 212.94"
    by (simp add: centerX_def g)
  show ?thesis
    using C1_day_cell_placement [of 365 2 5 "gridGeometry (Num 390) (Num 844) (Num 27)"
        "11.7" "17.94" "3181 / 225" "3181 / 600" "Some 0" "48.75" "295.4", OF _ _ _ _ g]
      C1_day_cell_placement [of 365 2 364 "gridGeometry (Num 390) (Num 844) (Num 27)"
        "11.7" "17.94" "3181 / 225" "3181 / 600" "Some 0" "48.75" "295.4", OF _ _ _ _ g] x
    by (simp add: Let_def)
qed

lemma count_one:
  assumes "\<And>i. length (filter P (f i)) = (if int i = e then 1 else 0)"
  shows "length (filter P (concat (map f [0..<m]))) = (if 0 \<le> e \<and> e < int m then 1 else 0)"
  by (induction m) (auto simp: assms)

lemma kind_jsi:
  "(if jsi_lt (Some i) (Some e) then Cross else if jsi_eq (Some i) (Some e) then Today else Dot)
     = kindOf i e"
  by (simp add: kindOf_def jsi_lt_def jsi_eq_def)

lemma lodash_range_nonneg: "0 \<le> n \<Longrightarrow> lodash_range (Some n) = map int [0..<nat n]"
  by (simp add: lodash_range_def)

lemma today_dayDots:
  "length (filter isTodayDot (dayDots first (Some e) i)) = (if int i = e then 1 else 0)"
  by (simp add: dayDots_def isTodayDot_def Let_def jsi_lt_def jsi_eq_def)

lemma today_dayFragment:
  "length (filter isTodayIcon (dayFragment s first (Some e) (int i))) = (if int i = e then 1 else 0)"
  by (simp add: dayFragment_def Let_def jsi_lt_def jsi_eq_def)

lemma today_dayElements:
  "length (filter isTodayCircle (dayElements g cx cy first (Some e) i)) = (if int i = e then 1 else 0)"
  by (simp add: dayElements_def Let_def jsi_lt_def jsi_eq_def)

lemma no_today_empty:
  "filter isTodayDot (map (\<lambda>j. \<lparr>type = Empty, row = rowOf (Some (int j)), col = colOf (Some (int j))\<rparr>) xs) = []"
  by (induction xs) (simp_all add: isTodayDot_def)

lemma no_today_EmptyStart: "filter isTodayIcon (map (\<lambda>i. EmptyStart s) xs) = []"
  by (induction xs) simp_all

lemma map_filter_append: "List.map_filter f (xs @ ys) = List.map_filter f xs @ List.map_filter f ys"
  by (simp add: List.map_filter_def)

lemma map_filter_concat: "List.map_filter f (concat xss) = concat (map (List.map_filter f) xss)"
  by (induction xss) (simp_all add: map_filter_append List.map_filter_simps)

lemma kinds_EmptyStart: "List.map_filter childKind (map (\<lambda>i. EmptyStart s) xs) = []"
  by (induction xs) (simp_all add: List.map_filter_simps)

lemma kinds_dayFragment:
  "List.map_filter childKind (dayFragment s first (Some e) (int i)) = [kindOf (int i) e]"
  by (simp add: dayFragment_def Let_def jsi_lt_def jsi_eq_def kindOf_def List.map_filter_simps)

lemma kinds_dayElements:
  "map elementKind (dayElements g cx cy first (Some e) i) = strokes (kindOf (int i) e)"
  by (simp add: dayElements_def Let_def jsi_lt_def jsi_eq_def kindOf_def strokes_def)

text \<open>
  Claim C6. When the days passed \<open>e\<close> lie between 0 and the number of days \<open>n\<close> minus
  one, each of the three surfaces draws day index \<open>i\<close> as past exactly when \<open>i < e\<close>, as
  today exactly when \<open>i = e\<close>, and as future otherwise: the day cells of the dynamic
  route, the icons of the component and the elements of the configurable route (two
  strokes for a past day, one circle otherwise) show these kinds in the order of the
  days. So each surface draws exactly one day as today.
\<close>

theorem C6_classification:
  assumes "0 \<le> e" "e < n"
  shows "map type (filter isDay (generateDots (Some n) first (Some e))) =
           map (\<lambda>i. kindOf (int i) e) [0..<nat n] \<and>
         List.map_filter childKind (gridChildren s (Some n) first (Some e)) =
           map (\<lambda>i. kindOf (int i) e) [0..<nat n] \<and>
         map elementKind (svgDays 0 (Some n) g cx cy first (Some e) []) =
           concat (map (\<lambda>i. strokes (kindOf (int i) e)) [0..<nat n]) \<and>
         length (filter isTodayDot (generateDots (Some n) first (Some e))) = 1 \<and>
         length (filter isTodayIcon (gridChildren s (Some n) first (Some e))) = 1 \<and>
         length (filter isTodayCircle (svgDays 0 (Some n) g cx cy first (Some e) [])) = 1"
proof -
  have n: "0 \<le> n" "bound (Some n) = nat n" "e < int (nat n)"
    using assms by (simp_all add: bound_def)
  have 1: "map type (filter isDay (generateDots (Some n) first (Some e))) =
           map (\<lambda>i. kindOf (int i) e) [0..<nat n]"
    by (simp add: dayCells_eq n(2) kind_jsi comp_def)
  have k2: "List.map_filter childKind (gridChildren s (Some n) first (Some e)) =
           map (\<lambda>i. kindOf (int i) e) [0..<nat n]"
    by (simp add: gridChildren_def map_filter_append map_filter_concat kinds_EmptyStart
          lodash_range_nonneg [OF n(1)] comp_def kinds_dayFragment List.map_filter_simps)
  have k3: "map elementKind (svgDays 0 (Some n) g cx cy first (Some e) []) =
           concat (map (\<lambda>i. strokes (kindOf (int i) e)) [0..<nat n])"
    by (simp add: svgDays_eq n(2) map_concat comp_def kinds_dayElements)
  have c2: "length (filter isTodayDot (concat (map (dayDots first (Some e)) [0..<nat n]))) = 1"
    using count_one [of isTodayDot "dayDots first (Some e)" e "nat n", OF today_dayDots]
      assms(1) n(3) by simp
  have 2: "length (filter isTodayDot (generateDots (Some n) first (Some e))) = 1"
    using c2 by (simp add: generateDots_eq no_today_empty n(2)) (simp add: isTodayDot_def)
  have c3: "length (filter isTodayIcon
              (concat (map (\<lambda>i. dayFragment s first (Some e) (int i)) [0..<nat n]))) = 1"
    using count_one [of isTodayIcon "\<lambda>i. dayFragment s first (Some e) (int i)" e "nat n",
        OF today_dayFragment] assms(1) n(3) by simp
  have 3: "length (filter isTodayIcon (gridChildren s (Some n) first (Some e))) = 1"
    using c3 by (simp add: gridChildren_def no_today_EmptyStart lodash_range_nonneg [OF n(1)] comp_def)
  have c4: "length (filter isTodayCircle
              (concat (map (dayElements g cx cy first (Some e)) [0..<nat n]))) = 1"
    using count_one [of isTodayCircle "dayElements g cx cy first (Some e)" e "nat n",
        OF today_dayElements] assms(1) n(3) by simp
  have 4: "length (filter isTodayCircle (svgDays 0 (Some n) g cx cy first (Some e) [])) = 1"
    using c4 by (simp add: svgDays_eq n(2))
  from 1 k2 k3 2 3 4 show ?thesis by blast
qed

theorem C6_classification_witness:
  "map type (filter isDay (generateDots (Some 3) (Some 2) (Some 1))) = [Cross, Today, Dot] \<and>
   List.map_filter childKind (gridChildren (Num 5) (Some 3) (Some 2) (Some 1)) = [Cross, Today, Dot] \<and>
   map elementKind (svgDays 0 (Some 3) (gridGeometry (Num 390) (Num 844) (Num 27)) (Num 0) (Num 0)
       (Some 2) (Some 1) []) = [Cross, Cross, Today, Dot] \<and>
   length (filter isTodayDot (generateDots (Some 3) (Some 2) (Some 1))) = 1"
  using C6_classification [of 1 3 "Some 2" "Num 5" "gridGeometry (Num 390) (Num 844) (Num 27)"
      "Num 0" "Num 0"]
  by (simp add: kindOf_def strokes_def upt_rec)

section \<open>Facts about the handlers\<close>

lemma js_min_NaN [simp]: "js_min x NaN = NaN"
  by (cases x) simp_all

lemma js_div_NaN [simp]: "js_div x NaN = NaN"
  by (cases x) simp_all

lemma js_mul_NaN [simp]: "js_mul x NaN = NaN"
  by (cases x) simp_all

lemma generateDots_None: "generateDots None None None = []"
  by (simp add: generateDots_eq bound_def jsi_ge_def)

text \<open>
  Claim C8, as amended. On a reference date that does not parse, neither image route
  raises an error: each returns a response whose card, padding and cell width are
  computed from the canvas, whose gap, dot size and cell height are \<^verbatim>\<open>NaN\<close>, which
  holds no day cell, and whose count of days left is \<^verbatim>\<open>NaN\<close>.
\<close>

theorem C8_invalid_date_response:
  "GET_dynamic z w h Invalid_Date =
     Inr \<lparr>imageWidth = w, imageHeight = h, geometry = gridGeometry w h NaN,
          cardTop = js_mul h (Num 0.35), drawables = [], daysLeft = None\<rparr> \<and>
   GET_configurable z w h Invalid_Date fmt =
     Inr \<lparr>contentType = (if fmt = ''svg'' then ''image/svg+xml'' else ''image/png''),
          svgWidth = w, svgHeight = h,
          cardX = js_div (js_sub w (js_mul w (Num 0.75))) (Num 2),
          cardY = js_mul h (Num 0.35), grid = gridGeometry w h NaN,
          borderRadius = js_mul (js_min (js_mul w (Num 0.75)) (js_mul h (Num 0.48))) (Num 0.04),
          svgElements = [], labelDaysLeft = None\<rparr> \<and>
   uniformGap (gridGeometry w h NaN) = NaN \<and>
   dotSize (gridGeometry w h NaN) = NaN \<and>
   cellHeight (gridGeometry w h NaN) = NaN"
  by (simp add: GET_dynamic_def GET_configurable_def temporal_Invalid to_num_def
        generateDots_None svgDays_eq bound_def jsi_sub_def geometry_defs)


text \<open>
  Claim C8 as stated fails: on an \<^verbatim>\<open>Invalid Date\<close> and the default canvas both routes
  return a response, with the card geometry computed, and not the error.
\<close>

theorem C8_invalid_date_counterexample:
  "GET_configurable utc (Num 390) (Num 844) Invalid_Date ''svg'' \<noteq> Inl InvalidDateInput \<and>
   GET_configurable utc (Num 390) (Num 844) Invalid_Date ''svg'' =
     Inr \<lparr>contentType = ''image/svg+xml'', svgWidth = Num 390, svgHeight = Num 844,
          cardX = Num 48.75, cardY = Num 295.4,
          grid = \<lparr>cardWidth = Num 292.5, cardHeight = Num 405.12, padding = Num 11.7,
                  availableWidth = Num 269.1, availableHeight = Num 381.72,
                  uniformGap = NaN, dotSize = NaN, cellWidth = Num 17.94, cellHeight = NaN\<rparr>,
          borderRadius = Num 11.7, svgElements = [], labelDaysLeft = None\<rparr> \<and>
   GET_dynamic utc (Num 390) (Num 844) Invalid_Date \<noteq> Inl InvalidDateInput \<and>
   GET_dynamic utc (Num 390) (Num 844) Invalid_Date =
     Inr \<lparr>imageWidth = Num 390, imageHeight = Num 844,
          geometry = \<lparr>cardWidth = Num 292.5, cardHeight = Num 405.12, padding = Num 11.7,
                  availableWidth = Num 269.1, availableHeight = Num 381.72,
                  uniformGap = NaN, dotSize = NaN, cellWidth = Num 17.94, cellHeight = NaN\<rparr>,
          cardTop = Num 295.4, drawables = [], daysLeft = None\<rparr>"
  by (simp add: GET_dynamic_def GET_configurable_def temporal_Invalid to_num_def
        generateDots_None svgDays_eq bound_def jsi_sub_def geometry_defs)

lemma gridGeometry_27:
  "gridGeometry (Num W) (Num H) (Num 27) =
     (let cardW = 0.75 * W;
          cardH = 0.48 * H;
          pad = 0.04 * min cardW cardH;
          availableW = cardW - 2 * pad;
          availableH = cardH - 2 * pad;
          gap = min (availableW / (15 * 4)) (availableH / (27 * 4))
      in \<lparr>cardWidth = Num cardW, cardHeight = Num cardH, padding = Num pad,
          availableWidth = Num availableW, availableHeight = Num availableH,
          uniformGap = Num gap, dotSize = Num (1.5 * gap),
          cellWidth = Num (availableW / 15), cellHeight = Num (availableH / 27)\<rparr>)"
  by (simp add: geometry_defs mult.commute)

text \<open>
  Claim C9, as amended. No render request is rejected for its canvas: whatever the
  width and the height (not positive, infinite or \<^verbatim>\<open>NaN\<close> included), both image routes
  return a response, whose geometry is computed from the width and the height as they
  are given. For a finite width and height of any sign and a valid reference date of a
  plain year, that geometry is given by the formulas of a positive canvas, for the 27
  rows of a year.
\<close>

theorem C9_canvas_not_checked:
  assumes "valid_date d" "plainYear z d"
  shows "map_sum id geometry (GET_dynamic z w h now) =
           Inr (gridGeometry w h (to_num (totalRows z now))) \<and>
         map_sum id grid (GET_configurable z w h now fmt) =
           Inr (gridGeometry w h (to_num (totalRows z now))) \<and>
         (let cardW = 0.75 * W;
              cardH = 0.48 * H;
              pad = 0.04 * min cardW cardH;
              availableW = cardW - 2 * pad;
              availableH = cardH - 2 * pad;
              gap = min (availableW / (15 * 4)) (availableH / (27 * 4))
          in gridGeometry (Num W) (Num H) (to_num (totalRows z (Date d))) =
               \<lparr>cardWidth = Num cardW, cardHeight = Num cardH, padding = Num pad,
                availableWidth = Num availableW, availableHeight = Num availableH,
                uniformGap = Num gap, dotSize = Num (1.5 * gap),
                cellWidth = Num (availableW / 15), cellHeight = Num (availableH / 27)\<rparr>)"
  by (simp add: GET_dynamic_def GET_configurable_def totalRows_plain [OF assms] to_num_def
        gridGeometry_27 Let_def)

theorem C9_canvas_not_checked_witness:
  "valid_date \<lparr>fullYear = 2025, dayOfYear = 165, hours = 12, minutes = 0, seconds = 0,
      milliseconds = 0\<rparr> \<and>
   plainYear utc \<lparr>fullYear = 2025, dayOfYear = 165, hours = 12, minutes = 0, seconds = 0,
      milliseconds = 0\<rparr> \<and>
   map_sum id geometry (GET_dynamic utc (Num (- 100)) (Num 844)
     (Date \<lparr>fullYear = 2025, dayOfYear = 165, hours = 12, minutes = 0, seconds = 0,
        milliseconds = 0\<rparr>)) =
     Inr \<lparr>cardWidth = Num (- 75), cardHeight = Num 405.12, padding = Num (- 3),
          availableWidth = Num (- 69), availableHeight = Num 411.12,
          uniformGap = Num (- 1.15), dotSize = Num (- 1.725),
          cellWidth = Num (- 4.6), cellHeight = Num (1142 / 75)\<rparr>"
proof -
  have v: "valid_date \<lparr>fullYear = 2025, dayOfYear = 165, hours = 12, minutes = 0, seconds = 0,
      milliseconds = 0\<rparr>"
    by (simp add: valid_date_def daysInYear_def DayFromYear_def inRange_def timeValue_def
          dayNumber_def msOfDay_def)
  have p: "plainYear utc \<lparr>fullYear = 2025, dayOfYear = 165, hours = 12, minutes = 0,
      seconds = 0, milliseconds = 0\<rparr>"
    by (simp add: plainYear_def utc_def)
  show ?thesis
    using C9_canvas_not_checked [OF v p, of "Num (- 100)" "Num 844"
        "Date \<lparr>fullYear = 2025, dayOfYear = 165, hours = 12, minutes = 0, seconds = 0,
           milliseconds = 0\<rparr>" "''svg''" "- 100" 844] v p
    by (simp add: Let_def)
qed

text \<open>
  Claim C9 as stated fails: on a canvas of width 0 the configurable route returns a
  response whose dots have size 0, and not the error.
\<close>

theorem C9_nonpositive_canvas_counterexample:
  "GET_configurable utc (Num 0) (Num 844)
     (Date \<lparr>fullYear = 2025, dayOfYear = 165, hours = 12, minutes = 0, seconds = 0,
        milliseconds = 0\<rparr>) ''svg'' \<noteq> Inl InvalidCanvasSize \<and>
   map_sum id grid (GET_configurable utc (Num 0) (Num 844)
     (Date \<lparr>fullYear = 2025, dayOfYear = 165, hours = 12, minutes = 0, seconds = 0,
        milliseconds = 0\<rparr>) ''svg'') =
     Inr \<lparr>cardWidth = Num 0, cardHeight = Num 405.12, padding = Num 0,
          availableWidth = Num 0, availableHeight = Num 405.12,
          uniformGap = Num 0, dotSize = Num 0, cellWidth = Num 0,
          cellHeight = Num (3376 / 225)\<rparr>"
proof -
  have v: "valid_date \<lparr>fullYear = 2025, dayOfYear = 165, hours = 12, minutes = 0, seconds = 0,
      milliseconds = 0\<rparr>"
    by (simp add: valid_date_def daysInYear_def DayFromYear_def inRange_def timeValue_def
          dayNumber_def msOfDay_def)
  have p: "plainYear utc \<lparr>fullYear = 2025, dayOfYear = 165, hours = 12, minutes = 0,
      seconds = 0, milliseconds = 0\<rparr>"
    by (simp add: plainYear_def utc_def)
  show ?thesis
    by (simp add: GET_configurable_def totalRows_plain [OF v p] to_num_def gridGeometry_27 Let_def)
qed

lemma rem14_small: "0 \<le> k \<Longrightarrow> k \<le> 6 \<Longrightarrow> rem14 (Some k) = Some k"
  by (simp add: rem14_def)

lemma dayDots_first:
  assumes "case first of None \<Rightarrow> True | Some k \<Rightarrow> 0 \<le> k \<and> k \<le> 6"
  shows "\<exists>x. dayDots first passed 0 = [x] \<and> isDay x"
  using assms
  by (cases first)
     (simp_all add: dayDots_def Let_def jsi_add_def rem14_def rem14_small jsi_eq_def isDay_def)

lemma takeWhile_prefix:
  "(\<And>y. y \<in> set xs \<Longrightarrow> P y) \<Longrightarrow> \<not> P x \<Longrightarrow> takeWhile P (xs @ x # ys) = xs"
  by (induction xs) auto

lemma leading_dots:
  assumes "case first of None \<Rightarrow> True | Some k \<Rightarrow> 0 \<le> k \<and> k \<le> 6"
  shows "map type (takeWhile (\<lambda>x. \<not> isDay x) (generateDots days first passed)) =
           replicate (bound first) Empty"
proof -
  let ?es = "map (\<lambda>j. \<lparr>type = Empty, row = rowOf (Some (int j)), col = colOf (Some (int j))\<rparr>)
               [0..<bound first]"
  have ng: "\<not> jsi_ge first (Some 7)"
    using assms by (cases first) (simp_all add: jsi_ge_def)
  have e: "\<And>y. y \<in> set ?es \<Longrightarrow> \<not> isDay y"
    by (auto simp: isDay_def)
  have "takeWhile (\<lambda>x. \<not> isDay x) (generateDots days first passed) = ?es"
  proof (cases "bound days")
    case 0
    then have "generateDots days first passed = ?es"
      using ng by (simp add: generateDots_eq)
    then show ?thesis
      using e by (simp del: map_map)
  next
    case (Suc m)
    obtain x where x: "dayDots first passed 0 = [x]" "isDay x"
      using dayDots_first [OF assms] by blast
    have u: "[0..<bound days] = 0 # [Suc 0..<bound days]"
      using Suc by (simp add: upt_conv_Cons)
    have g: "generateDots days first passed =
               ?es @ x # concat (map (dayDots first passed) [Suc 0..<bound days])"
      using ng x(1) by (simp add: generateDots_eq u)
    show ?thesis
      unfolding g by (rule takeWhile_prefix) (use e x(2) in blast)+
  qed
  then show ?thesis
    by (simp add: comp_def map_replicate_const)
qed

lemma GapFirst_dayFragment: "GapFirst \<notin> set (dayFragment s first passed i)"
  by (simp add: dayFragment_def Let_def)

text \<open>
  Claim C10. The weekday remap yields an offset from 0 to 6 whenever it yields a
  number, and it yields a number for every valid date of a plain year (it is \<^verbatim>\<open>NaN\<close> only
  when the year has no start). So on every input the test of the offset against 7
  fails: the component never renders its leading gap element, and the dots the dynamic
  image route pushes before the first day cell are the empty slots alone, one per unit
  of the offset, with no gap among them.
\<close>

theorem C10_no_leading_gap:
  "(case firstDayOfWeek z now of None \<Rightarrow> startOfYear z now = Invalid_Date
    | Some k \<Rightarrow> 0 \<le> k \<and> k \<le> 6) \<and>
   (valid_date d \<and> plainYear z d \<longrightarrow>
      (\<exists>k. firstDayOfWeek z (Date d) = Some k \<and> 0 \<le> k \<and> k \<le> 6)) \<and>
   \<not> jsi_ge (firstDayOfWeek z now) (Some 7) \<and>
   GapFirst \<notin> set (children (DailyDots z now w h)) \<and>
   map type (takeWhile (\<lambda>x. \<not> isDay x)
     (generateDots (totalDays z now) (firstDayOfWeek z now) (daysPassed z now))) =
     replicate (bound (firstDayOfWeek z now)) Empty"
proof -
  note 1 = firstDayOfWeek_range [of z now]
  have r: "case firstDayOfWeek z now of None \<Rightarrow> True | Some k \<Rightarrow> 0 \<le> k \<and> k \<le> 6"
    using 1 by (simp split: option.splits)
  have 2: "valid_date d \<and> plainYear z d \<longrightarrow>
      (\<exists>k. firstDayOfWeek z (Date d) = Some k \<and> 0 \<le> k \<and> k \<le> 6)"
    using firstDayOfWeek_plain by blast
  have 3: "\<not> jsi_ge (firstDayOfWeek z now) (Some 7)"
    using r by (simp add: jsi_ge_def split: option.splits)
  have 4: "GapFirst \<notin> set (children (DailyDots z now w h))"
    using 3 by (auto simp: DailyDots_def gridChildren_def Let_def GapFirst_dayFragment)
  note 5 = leading_dots [OF r, of "totalDays z now" "daysPassed z now"]
  from 1 2 3 4 5 show ?thesis by blast
qed

theorem C10_no_leading_gap_witness:
  "valid_date \<lparr>fullYear = 2025, dayOfYear = 0, hours = 0, minutes = 0, seconds = 0,
      milliseconds = 0\<rparr> \<and>
   plainYear utc \<lparr>fullYear = 2025, dayOfYear = 0, hours = 0, minutes = 0, seconds = 0,
      milliseconds = 0\<rparr> \<and>
   firstDayOfWeek utc (Date \<lparr>fullYear = 2025, dayOfYear = 0, hours = 0, minutes = 0,
      seconds = 0, milliseconds = 0\<rparr>) = Some 2 \<and>
   map type (takeWhile (\<lambda>x. \<not> isDay x)
     (generateDots
       (totalDays utc (Date \<lparr>fullYear = 2025, dayOfYear = 0, hours = 0, minutes = 0,
          seconds = 0, milliseconds = 0\<rparr>))
       (firstDayOfWeek utc (Date \<lparr>fullYear = 2025, dayOfYear = 0, hours = 0, minutes = 0,
          seconds = 0, milliseconds = 0\<rparr>))
       (daysPassed utc (Date \<lparr>fullYear = 2025, dayOfYear = 0, hours = 0, minutes = 0,
          seconds = 0, milliseconds = 0\<rparr>)))) = [Empty, Empty]"
proof -
  have v: "valid_date \<lparr>fullYear = 2025, dayOfYear = 0, hours = 0, minutes = 0, seconds = 0,
      milliseconds = 0\<rparr>"
    by (simp add: valid_date_def daysInYear_def DayFromYear_def inRange_def timeValue_def
          dayNumber_def msOfDay_def)
  have p: "plainYear utc \<lparr>fullYear = 2025, dayOfYear = 0, hours = 0, minutes = 0, seconds = 0,
      milliseconds = 0\<rparr>"
    by (simp add: plainYear_def utc_def)
  have f: "firstDayOfWeek utc (Date \<lparr>fullYear = 2025, dayOfYear = 0, hours = 0, minutes = 0,
      seconds = 0, milliseconds = 0\<rparr>) = Some 2"
    by (simp add: firstDayOfWeek_def startOfYear_plain [OF v p] getDay_def dayNumber_def
          DayFromYear_def jsi_eq_def jsi_sub_def)
  show ?thesis
    using C10_no_leading_gap [of utc
        "Date \<lparr>fullYear = 2025, dayOfYear = 0, hours = 0, minutes = 0, seconds = 0, milliseconds = 0\<rparr>"
        "\<lparr>fullYear = 2025, dayOfYear = 0, hours = 0, minutes = 0, seconds = 0, milliseconds = 0\<rparr>"
        "Num 390" "Num 844"] v p
    by (simp add: f bound_def eval_nat_numeral)
qed

section \<open>The size of the cross\<close>

text \<open>
  What each surface draws for the first day of the year when that day is past.
\<close>

lemma first_day_child:
  assumes "0 \<le> k" "k \<le> 6" "1 \<le> n" "0 < e"
  shows "gridChildren s (Some n) (Some k) (Some e) ! nat k = CrossIcon (js_mul s (Num 1.3))"
proof -
  let ?es = "map (\<lambda>i. EmptyStart s) (lodash_range (Some k))"
  have l: "length ?es = nat k"
    using assms(1) by (simp add: lodash_range_nonneg)
  have u: "[0..<nat n] = 0 # [Suc 0..<nat n]"
    using assms(3) by (simp add: upt_conv_Cons)
  have f: "dayFragment s (Some k) (Some e) 0 = [CrossIcon (js_mul s (Num 1.3))]"
    using assms by (simp add: dayFragment_def Let_def jsi_add_def rem14_small jsi_eq_def jsi_lt_def)
  have n0: "0 \<le> n" using assms(3) by simp
  have "gridChildren s (Some n) (Some k) (Some e) =
          ?es @ CrossIcon (js_mul s (Num 1.3)) #
            concat (map (dayFragment s (Some k) (Some e)) (map int [Suc 0..<nat n]))"
    using assms(2) f by (simp add: gridChildren_def jsi_ge_def lodash_range_nonneg [OF n0] u)
  then show ?thesis
    using l by (simp add: nth_append)
qed

lemma first_day_dot:
  assumes "0 \<le> k" "k \<le> 6" "1 \<le> n" "0 < e"
  shows "generateDots (Some n) (Some k) (Some e) ! nat k = \<lparr>type = Cross, row = Some 0, col = Some k\<rparr>"
proof -
  let ?es = "map (\<lambda>j. \<lparr>type = Empty, row = rowOf (Some (int j)), col = colOf (Some (int j))\<rparr>) [0..<nat k]"
  have u: "[0..<nat n] = 0 # [Suc 0..<nat n]"
    using assms(3) by (simp add: upt_conv_Cons)
  have f: "dayDots (Some k) (Some e) 0 = [\<lparr>type = Cross, row = Some 0, col = Some k\<rparr>]"
    using assms
    by (simp add: dayDots_def Let_def jsi_add_def rem14_small jsi_eq_def jsi_lt_def
          rowOf_Some colOf_Some)
  have "generateDots (Some n) (Some k) (Some e) =
          ?es @ \<lparr>type = Cross, row = Some 0, col = Some k\<rparr> #
            concat (map (dayDots (Some k) (Some e)) [Suc 0..<nat n])"
    using assms(2) f by (simp add: generateDots_eq bound_def jsi_ge_def u)
  then show ?thesis
    by (simp add: nth_append)
qed

lemma generateDots_length:
  assumes "0 \<le> k" "1 \<le> n"
  shows "nat k < length (generateDots (Some n) (Some k) passed)"
proof -
  have u: "[0..<nat n] = 0 # [Suc 0..<nat n]"
    using assms(2) by (simp add: upt_conv_Cons)
  have "dayDots (Some k) passed 0 \<noteq> []"
    by (simp add: dayDots_def Let_def)
  then show ?thesis
    by (simp add: generateDots_eq bound_def u)
qed

lemma first_day_elements:
  assumes "1 \<le> n" "0 < e"
  shows "take 2 (svgDays 0 (Some n) g cx cy first (Some e) []) = dayElements g cx cy first (Some e) 0"
proof -
  have u: "[0..<nat n] = 0 # [Suc 0..<nat n]"
    using assms(1) by (simp add: upt_conv_Cons)
  have "length (dayElements g cx cy first (Some e) 0) = 2"
    using assms(2) by (simp add: dayElements_def Let_def jsi_lt_def)
  then show ?thesis
    by (simp add: svgDays_eq bound_def u)
qed


lemma jan2_plain:
  "valid_date \<lparr>fullYear = 2025, dayOfYear = 1, hours = 12, minutes = 0, seconds = 0,
      milliseconds = 0\<rparr>"
  "plainYear utc \<lparr>fullYear = 2025, dayOfYear = 1, hours = 12, minutes = 0, seconds = 0,
      milliseconds = 0\<rparr>"
  by (simp_all add: valid_date_def daysInYear_def DayFromYear_def inRange_def timeValue_def
        dayNumber_def msOfDay_def plainYear_def utc_def)

lemma jan2_temporal:
  "totalDays utc jan2 = Some 365" "firstDayOfWeek utc jan2 = Some 2" "daysPassed utc jan2 = Some 1"
  "totalRows utc jan2 = Some 27"
  by (simp_all add: jan2_def totalDays_plain [OF jan2_plain] totalRows_plain [OF jan2_plain]
        daysPassed_plain [OF jan2_plain] isLeapYear_def firstDayOfWeek_def
        startOfYear_plain [OF jan2_plain] getDay_def dayNumber_def DayFromYear_def jsi_eq_def
        jsi_sub_def)

lemma default_geometry:
  "gridGeometry (Num 390) (Num 844) (Num 27) =
     \<lparr>cardWidth = Num 292.5, cardHeight = Num 405.12, padding = Num 11.7,
      availableWidth = Num 269.1, availableHeight = Num 381.72,
      uniformGap = Num (3181 / 900), dotSize = Num (3181 / 600),
      cellWidth = Num 17.94, cellHeight = Num (3181 / 225)\<rparr>"
  "dotSize (cardGeometry (Num 390) (Num 844) (Num 27)) = Num (3181 / 600)"
  by (simp_all add: geometry_defs)

text \<open>
  Claim C3 fails on the component. On 2 January 2025 and the default canvas the dot
  size is 3181/600 in the three surfaces and the first day is past. The component
  draws its cross with size 41353/6000, which is 1.3 dot sizes; the dynamic route
  draws it with size 3181/600, one dot size; the configurable route draws two lines
  that span 0.8 dot sizes, the cross that an image of one dot size holds.
\<close>

theorem C3_cross_size_evaluated:
  "children (DailyDots utc jan2 (Num 390) (Num 844)) ! 2 = CrossIcon (Num (41353 / 6000)) \<and>
   dotSize (viewCard (DailyDots utc jan2 (Num 390) (Num 844))) = Num (3181 / 600) \<and>
   js_mul (Num (3181 / 600)) (Num 1.3) = Num (41353 / 6000) \<and>
   drawables (projr (GET_dynamic utc (Num 390) (Num 844) jan2)) ! 2 =
     Svg CrossShape (Num (3181 / 600)) (Num (50639 / 1200)) (Num (3181 / 720)) \<and>
   dotSize (geometry (projr (GET_dynamic utc (Num 390) (Num 844) jan2))) = Num (3181 / 600) \<and>
   take 2 (svgElements (projr (GET_configurable utc (Num 390) (Num 844) jan2 ''svg''))) =
     [Line (Num (154769 / 1500)) (Num (1404217 / 4500)) (Num (161131 / 1500))
        (Num (1423303 / 4500)) (Num (3181 / 3000)),
      Line (Num (161131 / 1500)) (Num (1404217 / 4500)) (Num (154769 / 1500))
        (Num (1423303 / 4500)) (Num (3181 / 3000))] \<and>
   js_sub (Num (161131 / 1500)) (Num (154769 / 1500)) = js_mul (Num (3181 / 600)) (Num 0.8)"
proof -
  have c: "children (DailyDots utc jan2 (Num 390) (Num 844)) ! 2 = CrossIcon (Num (41353 / 6000))"
    using first_day_child [of 2 365 1 "Num (3181 / 600)"]
    by (simp add: DailyDots_def jan2_temporal to_num_def default_geometry Let_def)
  have d: "dotSize (viewCard (DailyDots utc jan2 (Num 390) (Num 844))) = Num (3181 / 600)"
    by (simp add: DailyDots_def jan2_temporal to_num_def default_geometry Let_def)
  have m: "js_mul (Num (3181 / 600)) (Num 1.3) = Num (41353 / 6000)"
    by simp
  have l: "(2::nat) < length (generateDots (Some 365) (Some 2) (Some 1))"
    using generateDots_length [of 2 365 "Some 1"] by simp
  have g: "drawables (projr (GET_dynamic utc (Num 390) (Num 844) jan2)) ! 2 =
     Svg CrossShape (Num (3181 / 600)) (Num (50639 / 1200)) (Num (3181 / 720))"
    using first_day_dot [of 2 365 1] l
    by (simp add: GET_dynamic_def jan2_temporal to_num_def default_geometry drawDot_def
          js_sub_def Let_def)
  have gd: "dotSize (geometry (projr (GET_dynamic utc (Num 390) (Num 844) jan2))) = Num (3181 / 600)"
    by (simp add: GET_dynamic_def jan2_temporal to_num_def default_geometry Let_def)
  have s: "take 2 (svgElements (projr (GET_configurable utc (Num 390) (Num 844) jan2 ''svg''))) =
     [Line (Num (154769 / 1500)) (Num (1404217 / 4500)) (Num (161131 / 1500))
        (Num (1423303 / 4500)) (Num (3181 / 3000)),
      Line (Num (161131 / 1500)) (Num (1404217 / 4500)) (Num (154769 / 1500))
        (Num (1423303 / 4500)) (Num (3181 / 3000))]"
    by (simp add: GET_configurable_def jan2_temporal to_num_def default_geometry
          first_day_elements dayElements_def Let_def jsi_add_def jsi_lt_def rowOf_Some colOf_Some
          js_sub_def)
  have w: "js_sub (Num (161131 / 1500)) (Num (154769 / 1500)) = js_mul (Num (3181 / 600)) (Num 0.8)"
    by (simp add: js_sub_def)
  from c d m g gd s w show ?thesis by blast
qed

end
